theory Spec2Isabelle
  imports Complex_Main "HOL-Library.Word"
begin

section \<open>SceneManager.cpp: data model\<close>

text \<open>
  The C++ \<open>float\<close> is read as a real number. The registries only copy such values,
  and the transform builder is studied up to rounding.
\<close>

datatype vec2 = Vec2 real real
datatype vec3 = Vec3 real real real
datatype vec4 = Vec4 real real real real

text \<open>A \<open>glm::mat4\<close> is column-major: four columns, each a \<open>vec4\<close>.\<close>

datatype mat4 = Mat4 vec4 vec4 vec4 vec4

type_synonym GLuint = "32 word"

text \<open>
  Modelled from the spec: \<open>TEXTURE_INFO\<close> and \<open>OBJECT_MATERIAL\<close> are declared in
  SceneManager.h, which is not among the sources. The fields are the ones
  SceneManager.cpp reads and writes. \<open>ID\<close> receives a \<open>GLuint\<close> (line 158) and its address
  is handed to \<open>glDeleteTextures\<close> (line 200), so it is an unsigned 32-bit value.
\<close>

record TEXTURE_INFO =
  ID :: GLuint
  tag :: string

record OBJECT_MATERIAL =
  diffuseColor :: vec3
  specularColor :: vec3
  shininess :: real
  tag :: string

section \<open>Material registry\<close>

text \<open>
  The loop of \<open>FindMaterial\<close> (lines 274-289), on its three variables: \<open>index\<close>,
  \<open>bFound\<close> and the output parameter \<open>material\<close>. The index never exceeds the size of
  the vector, so it is a natural number here.
\<close>

function FindMaterial_loop ::
  "OBJECT_MATERIAL list \<Rightarrow> string \<Rightarrow> nat \<Rightarrow> bool \<Rightarrow> OBJECT_MATERIAL \<Rightarrow> OBJECT_MATERIAL"
where
  "FindMaterial_loop mats t index bFound material =
     (if index < length mats \<and> bFound = False then
        (if OBJECT_MATERIAL.tag (mats ! index) = t then
           FindMaterial_loop mats t index True
             (material\<lparr>diffuseColor := diffuseColor (mats ! index),
                       specularColor := specularColor (mats ! index),
                       shininess := shininess (mats ! index)\<rparr>)
         else FindMaterial_loop mats t (index + 1) bFound material)
      else material)"
  by pat_completeness auto
termination
  by (relation "measure (\<lambda>(mats, t, index, bFound, material).
        2 * (length mats - index) + (if bFound then 0 else 1))") auto

text \<open>
  \<open>FindMaterial\<close> (lines 267-292): the returned flag and the output parameter after the
  call. The flag is \<open>true\<close> whenever the vector is not empty.
\<close>

definition FindMaterial ::
  "OBJECT_MATERIAL list \<Rightarrow> string \<Rightarrow> OBJECT_MATERIAL \<Rightarrow> bool \<times> OBJECT_MATERIAL"
where
  "FindMaterial m_objectMaterials t material =
     (if length m_objectMaterials = 0 then (False, material)
      else (True, FindMaterial_loop m_objectMaterials t 0 False material))"

section \<open>The world around the scene manager\<close>

text \<open>
  The image decoder (stb_image), the graphics API (OpenGL) and the console are external
  collaborators. Their state is written out as far as SceneManager.cpp drives it.
\<close>

record stb_image =
  img_width :: int
  img_height :: int
  img_channels :: int
  img_data :: "8 word list"

datatype GLconst =
  GL_TEXTURE_WRAP_S | GL_TEXTURE_WRAP_T | GL_TEXTURE_MIN_FILTER | GL_TEXTURE_MAG_FILTER
  | GL_REPEAT | GL_LINEAR_MIPMAP_LINEAR | GL_LINEAR
  | GL_RGB8 | GL_RGB | GL_RGBA8 | GL_RGBA

text \<open>What \<open>glTexImage2D\<close> stores: internal format, width, height, format, pixels.\<close>

record tex_image =
  internalformat :: GLconst
  tex_width :: int
  tex_height :: int
  format :: GLconst
  pixels :: "8 word list"

text \<open>A GPU texture object: its parameters, its level-0 image, whether it has mipmaps.\<close>

record tex_object =
  tex_params :: "GLconst \<rightharpoonup> GLconst"
  tex_level0 :: "tex_image option"
  tex_mipmaps :: bool

definition new_texture :: tex_object where
  "new_texture = \<lparr>tex_params = Map.empty, tex_level0 = None, tex_mipmaps = False\<rparr>"

text \<open>The lines written to \<open>std::cout\<close> and \<open>std::cerr\<close>, one constructor per message.\<close>

datatype message =
  Successfully_loaded_image string int int int
  | Not_implemented_channels int
  | Exceeded_MAX_TEXTURES
  | Could_not_load_image string
  | Texture_tag_not_found string

text \<open>The values a named uniform takes, one constructor per setter of the shader manager.\<close>

datatype uniform =
  IntValue int | Sampler2DValue int | Vec2Value vec2 | Vec4Value vec4 | Mat4Value mat4

text \<open>
  Modelled from the spec: \<open>ShaderManager\<close> is declared and implemented outside
  SceneManager.cpp. The spec gives it named-uniform setters whose writes persist until
  overwritten; its state here is the sequence of writes, oldest first.
\<close>

type_synonym ShaderManager = "(string \<times> uniform) list"

text \<open>The value a uniform holds: the one written last under its name.\<close>

fun uniform_value :: "ShaderManager \<Rightarrow> string \<Rightarrow> uniform option" where
  "uniform_value [] name = None"
| "uniform_value (w # ws) name =
     (case uniform_value ws name of
        Some v \<Rightarrow> Some v
      | None \<Rightarrow> (if fst w = name then Some (snd w) else None))"

text \<open>
  The members of \<open>SceneManager\<close> (prefix \<open>m_\<close>) and the state of the collaborators.
  \<open>m_pShaderManager\<close> is a pointer: \<open>None\<close> is \<open>NULL\<close>, \<open>Some a\<close> points at the shader
  manager stored at address \<open>a\<close> of \<open>shaders\<close>. \<open>m_textureIDs\<close> is the fixed array, with
  \<open>MAX_TEXTURES\<close> cells. \<open>m_basicMeshes\<close> takes no part in what follows and is left out.
\<close>

record World =
  m_pShaderManager :: "nat option"
  m_textureIDs :: "TEXTURE_INFO list"
  m_loadedTextures :: int
  m_objectMaterials :: "OBJECT_MATERIAL list"
  shaders :: "nat \<Rightarrow> ShaderManager"
  gl_textures :: "GLuint \<rightharpoonup> tex_object"
  gl_active :: nat
  gl_binding :: "nat \<Rightarrow> GLuint"
  stbi_flip :: bool
  stbi_buffers :: nat
  cout :: "message list"
  cerr :: "message list"

subsection \<open>OpenGL calls\<close>

text \<open>\<open>glGenTextures(1, &textureID)\<close>, where the driver hands out the name \<open>n\<close>.\<close>

definition glGenTextures :: "GLuint \<Rightarrow> World \<Rightarrow> World" where
  "glGenTextures n w = w\<lparr>gl_textures := (gl_textures w)(n \<mapsto> new_texture)\<rparr>"

text \<open>\<open>glBindTexture(GL_TEXTURE_2D, n)\<close> binds on the active texture unit.\<close>

definition glBindTexture :: "GLuint \<Rightarrow> World \<Rightarrow> World" where
  "glBindTexture n w = w\<lparr>gl_binding := (gl_binding w)(gl_active w := n)\<rparr>"

text \<open>\<open>glActiveTexture(GL_TEXTURE0 + i)\<close>.\<close>

definition glActiveTexture :: "nat \<Rightarrow> World \<Rightarrow> World" where
  "glActiveTexture i w = w\<lparr>gl_active := i\<rparr>"

text \<open>The calls below act on the texture object bound on the active unit, if there is one.\<close>

definition on_bound_texture :: "(tex_object \<Rightarrow> tex_object) \<Rightarrow> World \<Rightarrow> World" where
  "on_bound_texture f w =
     (let n = gl_binding w (gl_active w) in
      case gl_textures w n of
        None \<Rightarrow> w
      | Some obj \<Rightarrow> w\<lparr>gl_textures := (gl_textures w)(n \<mapsto> f obj)\<rparr>)"

definition glTexParameteri :: "GLconst \<Rightarrow> GLconst \<Rightarrow> World \<Rightarrow> World" where
  "glTexParameteri pname param w =
     on_bound_texture (\<lambda>obj. obj\<lparr>tex_params := (tex_params obj)(pname \<mapsto> param)\<rparr>) w"

definition glTexImage2D ::
  "GLconst \<Rightarrow> int \<Rightarrow> int \<Rightarrow> GLconst \<Rightarrow> 8 word list \<Rightarrow> World \<Rightarrow> World"
where
  "glTexImage2D ifmt width height fmt data w =
     on_bound_texture (\<lambda>obj. obj\<lparr>tex_level0 :=
        Some \<lparr>internalformat = ifmt, tex_width = width, tex_height = height,
              format = fmt, pixels = data\<rparr>\<rparr>) w"

definition glGenerateMipmap :: "World \<Rightarrow> World" where
  "glGenerateMipmap w = on_bound_texture (\<lambda>obj. obj\<lparr>tex_mipmaps := True\<rparr>) w"

text \<open>
  \<open>glDeleteTextures(1, &n)\<close>: the name 0 is ignored; a deleted texture that is bound
  reverts to the binding 0.
\<close>

definition glDeleteTextures :: "GLuint \<Rightarrow> World \<Rightarrow> World" where
  "glDeleteTextures n w =
     (if n = 0 then w
      else w\<lparr>gl_textures := (gl_textures w)(n := None),
             gl_binding := (\<lambda>u. if gl_binding w u = n then 0 else gl_binding w u)\<rparr>)"

subsection \<open>stb_image and the console\<close>

definition stbi_set_flip_vertically_on_load :: "bool \<Rightarrow> World \<Rightarrow> World" where
  "stbi_set_flip_vertically_on_load b w = w\<lparr>stbi_flip := b\<rparr>"

definition stbi_image_free :: "World \<Rightarrow> World" where
  "stbi_image_free w = w\<lparr>stbi_buffers := stbi_buffers w - 1\<rparr>"

definition print_cout :: "message \<Rightarrow> World \<Rightarrow> World" where
  "print_cout m w = w\<lparr>cout := cout w @ [m]\<rparr>"

definition print_cerr :: "message \<Rightarrow> World \<Rightarrow> World" where
  "print_cerr m w = w\<lparr>cerr := cerr w @ [m]\<rparr>"

subsection \<open>Shader manager setters\<close>

text \<open>\<open>m_pShaderManager->set...Value(name, v)\<close> through the non-null pointer \<open>a\<close>.\<close>

definition setUniform :: "nat \<Rightarrow> string \<Rightarrow> uniform \<Rightarrow> World \<Rightarrow> World" where
  "setUniform a name v w = w\<lparr>shaders := (shaders w)(a := shaders w a @ [(name, v)])\<rparr>"

definition g_ModelName :: string where "g_ModelName = ''model''"
definition g_ColorValueName :: string where "g_ColorValueName = ''objectColor''"
definition g_TextureValueName :: string where "g_TextureValueName = ''objectTexture''"
definition g_UseTextureName :: string where "g_UseTextureName = ''bUseTexture''"

section \<open>Texture registry\<close>

text \<open>
  The constructor (lines 36-43). The array \<open>m_textureIDs\<close> has \<open>MAX_TEXTURES\<close> cells;
  \<open>MAX_TEXTURES\<close> is defined in SceneManager.h, which is not among the sources, so it is a
  parameter. The tags of the cells start empty, the IDs start with whatever \<open>junk\<close> the
  memory holds, and the vector of materials starts empty.
\<close>

definition SceneManager_ctor :: "int \<Rightarrow> (nat \<Rightarrow> GLuint) \<Rightarrow> nat option \<Rightarrow> World \<Rightarrow> World" where
  "SceneManager_ctor MAX_TEXTURES junk pShaderManager w =
     w\<lparr>m_pShaderManager := pShaderManager,
       m_textureIDs := map (\<lambda>i. \<lparr>ID = junk i, tag = []\<rparr>) [0..<nat MAX_TEXTURES],
       m_loadedTextures := 0,
       m_objectMaterials := []\<rparr>"

text \<open>Lines 148-168 of \<open>CreateGLTexture\<close>: what follows the upload of a supported image.\<close>

definition CreateGLTexture_register :: "int \<Rightarrow> GLuint \<Rightarrow> string \<Rightarrow> World \<Rightarrow> bool \<times> World" where
  "CreateGLTexture_register MAX_TEXTURES textureID t w =
     (let w = glGenerateMipmap w;
          w = stbi_image_free w;
          w = glBindTexture 0 w;
          w = (if m_loadedTextures w < MAX_TEXTURES then
                 (let i = nat (m_loadedTextures w);
                      w = w\<lparr>m_textureIDs :=
                            (m_textureIDs w)[i := (m_textureIDs w ! i)\<lparr>ID := textureID\<rparr>]\<rparr>;
                      w = w\<lparr>m_textureIDs :=
                            (m_textureIDs w)[i := (m_textureIDs w ! i)\<lparr>TEXTURE_INFO.tag := t\<rparr>]\<rparr>
                  in w\<lparr>m_loadedTextures := m_loadedTextures w + 1\<rparr>)
               else print_cout Exceeded_MAX_TEXTURES w)
      in (True, w))"

text \<open>
  \<open>CreateGLTexture\<close> (lines 69-173). \<open>stbi_load\<close> is the decoder: given the flip setting
  and a file name it yields the decoded image, or nothing (a null pointer). \<open>name\<close> is
  the texture name that \<open>glGenTextures\<close> hands out during this call.
\<close>

definition CreateGLTexture ::
  "(bool \<Rightarrow> string \<Rightarrow> stb_image option) \<Rightarrow> int \<Rightarrow> GLuint \<Rightarrow> string \<Rightarrow> string \<Rightarrow> World
     \<Rightarrow> bool \<times> World"
where
  "CreateGLTexture stbi_load MAX_TEXTURES name filename t w =
     (let w = stbi_set_flip_vertically_on_load True w in
      case stbi_load (stbi_flip w) filename of
        Some img \<Rightarrow>
          (let width = img_width img; height = img_height img;
               colorChannels = img_channels img;
               w = w\<lparr>stbi_buffers := stbi_buffers w + 1\<rparr>;
               w = print_cout (Successfully_loaded_image filename width height colorChannels) w;
               w = glGenTextures name w;
               textureID = name;
               w = glBindTexture textureID w;
               w = glTexParameteri GL_TEXTURE_WRAP_S GL_REPEAT w;
               w = glTexParameteri GL_TEXTURE_WRAP_T GL_REPEAT w;
               w = glTexParameteri GL_TEXTURE_MIN_FILTER GL_LINEAR_MIPMAP_LINEAR w;
               w = glTexParameteri GL_TEXTURE_MAG_FILTER GL_LINEAR w
           in if colorChannels = 3 then
                CreateGLTexture_register MAX_TEXTURES textureID t
                  (glTexImage2D GL_RGB8 width height GL_RGB (img_data img) w)
              else if colorChannels = 4 then
                CreateGLTexture_register MAX_TEXTURES textureID t
                  (glTexImage2D GL_RGBA8 width height GL_RGBA (img_data img) w)
              else
                (let w = print_cout (Not_implemented_channels colorChannels) w;
                     w = stbi_image_free w;
                     w = glBindTexture 0 w
                 in (False, w)))
      | None \<Rightarrow> (False, print_cout (Could_not_load_image filename) w))"

text \<open>\<open>BindGLTextures\<close> (lines 181-188).\<close>

definition BindGLTextures :: "World \<Rightarrow> World" where
  "BindGLTextures w =
     fold (\<lambda>i w. glBindTexture (ID (m_textureIDs w ! i)) (glActiveTexture i w))
          [0..<nat (m_loadedTextures w)] w"

text \<open>\<open>DestroyGLTextures\<close> (lines 196-203).\<close>

definition DestroyGLTextures :: "World \<Rightarrow> World" where
  "DestroyGLTextures w =
     (let w = fold (\<lambda>i w. glDeleteTextures (ID (m_textureIDs w ! i)) w)
                   [0..<nat (m_loadedTextures w)] w
      in w\<lparr>m_loadedTextures := 0\<rparr>)"

text \<open>
  The loop of \<open>FindTextureID\<close> (lines 217-228) on \<open>index\<close>, \<open>bFound\<close> and \<open>textureID\<close>.
  The assignment \<open>textureID = m_textureIDs[index].ID\<close> converts the unsigned ID to \<open>int\<close>.
\<close>

function FindTextureID_loop ::
  "TEXTURE_INFO list \<Rightarrow> int \<Rightarrow> string \<Rightarrow> int \<Rightarrow> bool \<Rightarrow> int \<Rightarrow> int"
where
  "FindTextureID_loop textureIDs loadedTextures t index bFound textureID =
     (if index < loadedTextures \<and> bFound = False then
        (if TEXTURE_INFO.tag (textureIDs ! nat index) = t then
           FindTextureID_loop textureIDs loadedTextures t index True
             (sint (ID (textureIDs ! nat index)))
         else FindTextureID_loop textureIDs loadedTextures t (index + 1) bFound textureID)
      else textureID)"
  by pat_completeness auto
termination
  by (relation "measure (\<lambda>(textureIDs, loadedTextures, t, index, bFound, textureID).
        2 * nat (loadedTextures - index) + (if bFound then 0 else 1))") auto

text \<open>\<open>FindTextureID\<close> (lines 211-231).\<close>

definition FindTextureID :: "string \<Rightarrow> World \<Rightarrow> int" where
  "FindTextureID t w = FindTextureID_loop (m_textureIDs w) (m_loadedTextures w) t 0 False (- 1)"

text \<open>The loop of \<open>FindTextureSlot\<close> (lines 245-256).\<close>

function FindTextureSlot_loop ::
  "TEXTURE_INFO list \<Rightarrow> int \<Rightarrow> string \<Rightarrow> int \<Rightarrow> bool \<Rightarrow> int \<Rightarrow> int"
where
  "FindTextureSlot_loop textureIDs loadedTextures t index bFound textureSlot =
     (if index < loadedTextures \<and> bFound = False then
        (if TEXTURE_INFO.tag (textureIDs ! nat index) = t then
           FindTextureSlot_loop textureIDs loadedTextures t index True index
         else FindTextureSlot_loop textureIDs loadedTextures t (index + 1) bFound textureSlot)
      else textureSlot)"
  by pat_completeness auto
termination
  by (relation "measure (\<lambda>(textureIDs, loadedTextures, t, index, bFound, textureSlot).
        2 * nat (loadedTextures - index) + (if bFound then 0 else 1))") auto

text \<open>\<open>FindTextureSlot\<close> (lines 239-259).\<close>

definition FindTextureSlot :: "string \<Rightarrow> World \<Rightarrow> int" where
  "FindTextureSlot t w =
     FindTextureSlot_loop (m_textureIDs w) (m_loadedTextures w) t 0 False (- 1)"

section \<open>Transform builder and shader binding\<close>

subsection \<open>The GLM calls\<close>

text \<open>
  GLM is an external library. The definitions below follow what its functions compute,
  on real numbers. The product of a \<open>vec4\<close> by a scalar and the sum of two are \<open>vec4_times\<close> and
  \<open>vec4_plus\<close>.
\<close>

fun vec4_times :: "vec4 \<Rightarrow> real \<Rightarrow> vec4" where
  "vec4_times (Vec4 a b c d) s = Vec4 (a * s) (b * s) (c * s) (d * s)"

fun vec4_plus :: "vec4 \<Rightarrow> vec4 \<Rightarrow> vec4" where
  "vec4_plus (Vec4 a b c d) (Vec4 a' b' c' d') = Vec4 (a + a') (b + b') (c + c') (d + d')"

text \<open>\<open>m * v\<close> for a matrix and a column vector.\<close>

fun mat4_times_vec4 :: "mat4 \<Rightarrow> vec4 \<Rightarrow> vec4" where
  "mat4_times_vec4 (Mat4 m0 m1 m2 m3) (Vec4 a b c d) =
     vec4_plus (vec4_plus (vec4_plus (vec4_times m0 a) (vec4_times m1 b)) (vec4_times m2 c))
               (vec4_times m3 d)"

text \<open>\<open>m1 * m2\<close> for two matrices: each column of \<open>m2\<close> is transformed by \<open>m1\<close>.\<close>

instantiation mat4 :: times
begin

fun times_mat4 :: "mat4 \<Rightarrow> mat4 \<Rightarrow> mat4" where
  "times_mat4 m (Mat4 b0 b1 b2 b3) =
     Mat4 (mat4_times_vec4 m b0) (mat4_times_vec4 m b1)
          (mat4_times_vec4 m b2) (mat4_times_vec4 m b3)"

instance ..

end

text \<open>\<open>glm::mat4(1.0f)\<close>.\<close>

definition mat4_identity :: mat4 where
  "mat4_identity = Mat4 (Vec4 1 0 0 0) (Vec4 0 1 0 0) (Vec4 0 0 1 0) (Vec4 0 0 0 1)"

text \<open>\<open>glm::scale(v)\<close>, that is \<open>glm::scale(glm::mat4(1.0f), v)\<close>.\<close>

fun glm_scale :: "vec3 \<Rightarrow> mat4" where
  "glm_scale (Vec3 a b c) =
     (case mat4_identity of Mat4 m0 m1 m2 m3 \<Rightarrow>
        Mat4 (vec4_times m0 a) (vec4_times m1 b) (vec4_times m2 c) m3)"

text \<open>\<open>glm::translate(v)\<close>, that is \<open>glm::translate(glm::mat4(1.0f), v)\<close>.\<close>

fun glm_translate :: "vec3 \<Rightarrow> mat4" where
  "glm_translate (Vec3 a b c) =
     (case mat4_identity of Mat4 m0 m1 m2 m3 \<Rightarrow>
        Mat4 m0 m1 m2
          (vec4_plus (vec4_plus (vec4_plus (vec4_times m0 a) (vec4_times m1 b))
                                (vec4_times m2 c)) m3))"

text \<open>\<open>glm::radians(degrees)\<close>.\<close>

definition glm_radians :: "real \<Rightarrow> real" where
  "glm_radians degrees = degrees * (pi / 180)"

text \<open>\<open>glm::normalize(v)\<close>: \<open>v * inversesqrt(dot(v, v))\<close>.\<close>

fun glm_normalize :: "vec3 \<Rightarrow> vec3" where
  "glm_normalize (Vec3 a b c) =
     (let r = 1 / sqrt (a * a + b * b + c * c) in Vec3 (a * r) (b * r) (c * r))"

text \<open>
  \<open>glm::rotate(angle, v)\<close>, that is \<open>glm::rotate(glm::mat4(1.0f), angle, v)\<close>: the
  rotation by \<open>angle\<close> radians about the normalised axis \<open>v\<close>.
\<close>

definition glm_rotate :: "real \<Rightarrow> vec3 \<Rightarrow> mat4" where
  "glm_rotate angle v =
     (let c = cos angle; s = sin angle in
      case glm_normalize v of Vec3 ax ay az \<Rightarrow>
      case Vec3 ((1 - c) * ax) ((1 - c) * ay) ((1 - c) * az) of Vec3 tx ty tz \<Rightarrow>
      case mat4_identity of Mat4 m0 m1 m2 m3 \<Rightarrow>
        Mat4
          (vec4_plus (vec4_plus (vec4_times m0 (c + tx * ax))
                                (vec4_times m1 (tx * ay + s * az)))
                     (vec4_times m2 (tx * az - s * ay)))
          (vec4_plus (vec4_plus (vec4_times m0 (ty * ax - s * az))
                                (vec4_times m1 (c + ty * ay)))
                     (vec4_times m2 (ty * az + s * ax)))
          (vec4_plus (vec4_plus (vec4_times m0 (tz * ax + s * ay))
                                (vec4_times m1 (tz * ay - s * ax)))
                     (vec4_times m2 (c + tz * az)))
          m3)"

subsection \<open>The setters of the scene manager\<close>

text \<open>\<open>SetTransformations\<close> (lines 300-320).\<close>

definition SetTransformations :: "vec3 \<Rightarrow> real \<Rightarrow> real \<Rightarrow> real \<Rightarrow> vec3 \<Rightarrow> World \<Rightarrow> World" where
  "SetTransformations scaleXYZ XrotationDegrees YrotationDegrees ZrotationDegrees positionXYZ w =
     (let scale = glm_scale scaleXYZ;
          rotationX = glm_rotate (glm_radians XrotationDegrees) (Vec3 1 0 0);
          rotationY = glm_rotate (glm_radians YrotationDegrees) (Vec3 0 1 0);
          rotationZ = glm_rotate (glm_radians ZrotationDegrees) (Vec3 0 0 1);
          translation = glm_translate positionXYZ;
          modelView = translation * rotationZ * rotationY * rotationX * scale
      in case m_pShaderManager w of
           Some a \<Rightarrow> setUniform a g_ModelName (Mat4Value modelView) w
         | None \<Rightarrow> w)"

text \<open>\<open>SetShaderColor\<close> (lines 328-346).\<close>

definition SetShaderColor :: "real \<Rightarrow> real \<Rightarrow> real \<Rightarrow> real \<Rightarrow> World \<Rightarrow> World" where
  "SetShaderColor redColorValue greenColorValue blueColorValue alphaValue w =
     (let currentColor = Vec4 redColorValue greenColorValue blueColorValue alphaValue
      in case m_pShaderManager w of
           Some a \<Rightarrow>
             (let w = setUniform a g_UseTextureName (IntValue 0) w
              in setUniform a g_ColorValueName (Vec4Value currentColor) w)
         | None \<Rightarrow> w)"

text \<open>\<open>SetShaderTexture\<close> (lines 354-376).\<close>

definition SetShaderTexture :: "string \<Rightarrow> World \<Rightarrow> World" where
  "SetShaderTexture textureTag w =
     (case m_pShaderManager w of
        Some a \<Rightarrow>
          (let w = setUniform a g_UseTextureName (IntValue 1) w;
               slot = FindTextureSlot textureTag w
           in if slot \<ge> 0 then setUniform a g_TextureValueName (Sampler2DValue slot) w
              else print_cerr (Texture_tag_not_found textureTag) w)
      | None \<Rightarrow> w)"

text \<open>\<open>SetTextureUVScale\<close> (lines 384-390).\<close>

definition SetTextureUVScale :: "real \<Rightarrow> real \<Rightarrow> World \<Rightarrow> World" where
  "SetTextureUVScale u v w =
     (case m_pShaderManager w of
        Some a \<Rightarrow> setUniform a ''UVscale'' (Vec2Value (Vec2 u v)) w
      | None \<Rightarrow> w)"

section \<open>Sequences of calls\<close>

text \<open>
  The public methods of the scene manager that change state, with their arguments. For
  \<open>CreateGLTexture\<close> the last argument is the texture name the driver hands out.
\<close>

datatype method_call =
  Call_CreateGLTexture string string GLuint
  | Call_BindGLTextures
  | Call_DestroyGLTextures
  | Call_SetTransformations vec3 real real real vec3
  | Call_SetShaderColor real real real real
  | Call_SetShaderTexture string
  | Call_SetTextureUVScale real real

fun call :: "(bool \<Rightarrow> string \<Rightarrow> stb_image option) \<Rightarrow> int \<Rightarrow> method_call \<Rightarrow> World \<Rightarrow> World" where
  "call stbi_load MAX_TEXTURES (Call_CreateGLTexture filename t name) w =
     snd (CreateGLTexture stbi_load MAX_TEXTURES name filename t w)"
| "call stbi_load MAX_TEXTURES Call_BindGLTextures w = BindGLTextures w"
| "call stbi_load MAX_TEXTURES Call_DestroyGLTextures w = DestroyGLTextures w"
| "call stbi_load MAX_TEXTURES (Call_SetTransformations s rx ry rz p) w =
     SetTransformations s rx ry rz p w"
| "call stbi_load MAX_TEXTURES (Call_SetShaderColor r g b a) w = SetShaderColor r g b a w"
| "call stbi_load MAX_TEXTURES (Call_SetShaderTexture t) w = SetShaderTexture t w"
| "call stbi_load MAX_TEXTURES (Call_SetTextureUVScale u v) w = SetTextureUVScale u v w"

definition run ::
  "(bool \<Rightarrow> string \<Rightarrow> stb_image option) \<Rightarrow> int \<Rightarrow> method_call list \<Rightarrow> World \<Rightarrow> World"
where
  "run stbi_load MAX_TEXTURES calls w = fold (call stbi_load MAX_TEXTURES) calls w"

text \<open>
  The registered count lies between 0 and \<open>MAX_TEXTURES\<close>, and the array has
  \<open>MAX_TEXTURES\<close> cells.
\<close>

definition texture_invariant :: "int \<Rightarrow> World \<Rightarrow> bool" where
  "texture_invariant MAX_TEXTURES w \<longleftrightarrow>
     0 \<le> m_loadedTextures w \<and> m_loadedTextures w \<le> MAX_TEXTURES \<and>
     int (length (m_textureIDs w)) = MAX_TEXTURES"

text \<open>The file decodes, to an image with three or four channels.\<close>

definition supported :: "(bool \<Rightarrow> string \<Rightarrow> stb_image option) \<Rightarrow> string \<Rightarrow> bool" where
  "supported stbi_load filename =
     (case stbi_load True filename of
        None \<Rightarrow> False
      | Some img \<Rightarrow> img_channels img = 3 \<or> img_channels img = 4)"

section \<open>Concrete data\<close>

text \<open>Three of the materials that \<open>PrepareScene\<close> defines (lines 468-489).\<close>

definition floorMat :: OBJECT_MATERIAL where
  "floorMat = \<lparr>diffuseColor = Vec3 0.44 0.26 0.08, specularColor = Vec3 0.3 0.3 0.3,
               shininess = 32, tag = ''floor''\<rparr>"

definition tentMat :: OBJECT_MATERIAL where
  "tentMat = \<lparr>diffuseColor = Vec3 0.2 0.4 0.1, specularColor = Vec3 0.2 0.2 0.2,
              shininess = 16, tag = ''tent''\<rparr>"

definition fireMat :: OBJECT_MATERIAL where
  "fireMat = \<lparr>diffuseColor = Vec3 1.0 0.5 0.0, specularColor = Vec3 0.3 0.3 0.3,
              shininess = 8, tag = ''campfire''\<rparr>"

text \<open>A second material under the tag of \<open>tentMat\<close>, to observe which of two wins.\<close>

definition tentMat2 :: OBJECT_MATERIAL where
  "tentMat2 = \<lparr>diffuseColor = Vec3 0.9 0.9 0.9, specularColor = Vec3 0.5 0.5 0.5,
               shininess = 2, tag = ''tent''\<rparr>"

text \<open>
  The state before a scene manager exists: no shader manager in sight, no texture object,
  nothing printed.
\<close>

definition blank_world :: World where
  "blank_world =
     \<lparr>m_pShaderManager = None, m_textureIDs = [], m_loadedTextures = 0,
      m_objectMaterials = [], shaders = (\<lambda>a. []), gl_textures = Map.empty,
      gl_active = 0, gl_binding = (\<lambda>u. 0), stbi_flip = False, stbi_buffers = 0,
      cout = [], cerr = []\<rparr>"

text \<open>
  A disk with three one-pixel images: an RGB one, an RGBA one and a two-channel
  (grey with alpha) one. Any other file does not decode.
\<close>

definition disk :: "bool \<Rightarrow> string \<Rightarrow> stb_image option" where
  "disk flip filename =
     (if filename = ''textures/tent.jpg'' then
        Some \<lparr>img_width = 1, img_height = 1, img_channels = 3, img_data = [200, 100, 50]\<rparr>
      else if filename = ''textures/sky.png'' then
        Some \<lparr>img_width = 1, img_height = 1, img_channels = 4, img_data = [0, 0, 255, 255]\<rparr>
      else if filename = ''textures/grey.png'' then
        Some \<lparr>img_width = 1, img_height = 1, img_channels = 2, img_data = [128, 255]\<rparr>
      else None)"

text \<open>
  A scene manager whose array has two cells, pointing at the shader manager at address 0,
  then the same after registering one texture and after registering two.
\<close>

definition scene0 :: World where
  "scene0 = SceneManager_ctor 2 (\<lambda>i. 0) (Some 0) blank_world"

definition scene1 :: World where
  "scene1 = snd (CreateGLTexture disk 2 1 ''textures/tent.jpg'' ''tent'' scene0)"

definition scene2 :: World where
  "scene2 = snd (CreateGLTexture disk 2 2 ''textures/sky.png'' ''sky'' scene1)"

text \<open>
  With both cells taken, a third registration; and, from \<open>scene1\<close>, the registration of
  the two-channel image.
\<close>

definition scene3 :: World where
  "scene3 = snd (CreateGLTexture disk 2 3 ''textures/tent.jpg'' ''third'' scene2)"

definition scene_grey :: World where
  "scene_grey = snd (CreateGLTexture disk 2 3 ''textures/grey.png'' ''grey'' scene1)"

text \<open>
  \<open>scene2\<close> after the texture tagged sky was selected, and a scene manager constructed
  with a null shader manager.
\<close>

definition scene2_sky :: World where
  "scene2_sky = SetShaderTexture ''sky'' scene2"

definition scene_null :: World where
  "scene_null = SceneManager_ctor 2 (\<lambda>i. 0) None blank_world"

section \<open>Material lookup: the loop\<close>

declare FindMaterial_loop.simps [simp del]

lemma FindMaterial_loop_done: "FindMaterial_loop mats t index True material = material"
  by (subst FindMaterial_loop.simps) simp

lemma FindMaterial_loop_absent:
  "\<forall>j. index \<le> j \<and> j < length mats \<longrightarrow> OBJECT_MATERIAL.tag (mats ! j) \<noteq> t \<Longrightarrow>
   FindMaterial_loop mats t index False material = material"
proof (induction "length mats - index" arbitrary: index)
  case 0
  then show ?case by (subst FindMaterial_loop.simps) simp
next
  case (Suc n)
  from Suc.hyps(2) have lt: "index < length mats" by simp
  with Suc.prems have ne: "OBJECT_MATERIAL.tag (mats ! index) \<noteq> t" by simp
  have "FindMaterial_loop mats t (index + 1) False material = material"
    using Suc.hyps(2) Suc.prems by (intro Suc.hyps(1)) auto
  with lt ne show ?case by (subst FindMaterial_loop.simps) simp
qed

lemma FindMaterial_loop_first:
  "index \<le> k \<Longrightarrow> k < length mats \<Longrightarrow> OBJECT_MATERIAL.tag (mats ! k) = t \<Longrightarrow>
   \<forall>j. index \<le> j \<and> j < k \<longrightarrow> OBJECT_MATERIAL.tag (mats ! j) \<noteq> t \<Longrightarrow>
   FindMaterial_loop mats t index False material =
     material\<lparr>diffuseColor := diffuseColor (mats ! k),
              specularColor := specularColor (mats ! k),
              shininess := shininess (mats ! k)\<rparr>"
proof (induction "k - index" arbitrary: index)
  case 0
  then have "index = k" by simp
  with 0 show ?case
    by (subst FindMaterial_loop.simps) (simp add: FindMaterial_loop_done)
next
  case (Suc n)
  from Suc.hyps(2) have lt: "index < k" by simp
  with Suc.prems have ne: "OBJECT_MATERIAL.tag (mats ! index) \<noteq> t" by simp
  have "FindMaterial_loop mats t (index + 1) False material =
     material\<lparr>diffuseColor := diffuseColor (mats ! k),
              specularColor := specularColor (mats ! k),
              shininess := shininess (mats ! k)\<rparr>"
    using Suc.hyps(2) Suc.prems by (intro Suc.hyps(1)) auto
  with lt ne Suc.prems(2) show ?case by (subst FindMaterial_loop.simps) simp
qed

section \<open>Material lookup: properties\<close>

text \<open>
  C1. \<open>FindMaterial\<close> reports not-found exactly when the registry is empty. When the
  registry is not empty and no entry carries the tag, it reports success and the output
  material is the one the caller passed in: no value is copied.
\<close>

theorem FindMaterial_not_found_iff_empty:
  "(fst (FindMaterial mats t material) = False \<longleftrightarrow> mats = []) \<and>
   (mats \<noteq> [] \<and> (\<forall>e \<in> set mats. OBJECT_MATERIAL.tag e \<noteq> t) \<longrightarrow>
      FindMaterial mats t material = (True, material))"
proof -
  have "FindMaterial_loop mats t 0 False material = material"
    if "\<forall>e \<in> set mats. OBJECT_MATERIAL.tag e \<noteq> t"
    using that by (intro FindMaterial_loop_absent) simp
  then show ?thesis by (auto simp: FindMaterial_def)
qed



theorem FindMaterial_not_found_iff_empty_witness:
  "fst (FindMaterial [] ''rock'' tentMat) = False \<and>
   [floorMat, fireMat] \<noteq> [] \<and>
   OBJECT_MATERIAL.tag floorMat \<noteq> ''rock'' \<and> OBJECT_MATERIAL.tag fireMat \<noteq> ''rock'' \<and>
   FindMaterial [floorMat, fireMat] ''rock'' tentMat = (True, tentMat)"
proof -
  have empty: "fst (FindMaterial [] ''rock'' tentMat) = False"
    using FindMaterial_not_found_iff_empty [of "[]" "''rock''" tentMat] by blast
  have h: "[floorMat, fireMat] \<noteq> [] \<and>
      (\<forall>e \<in> set [floorMat, fireMat]. OBJECT_MATERIAL.tag e \<noteq> ''rock'')"
    by (simp add: floorMat_def fireMat_def)
  with FindMaterial_not_found_iff_empty [of "[floorMat, fireMat]" "''rock''" tentMat]
  have found: "FindMaterial [floorMat, fireMat] ''rock'' tentMat = (True, tentMat)" by blast
  have tags: "OBJECT_MATERIAL.tag floorMat \<noteq> ''rock'' \<and> OBJECT_MATERIAL.tag fireMat \<noteq> ''rock''"
    by (simp add: floorMat_def fireMat_def)
  from empty h tags found show ?thesis by blast
qed

text \<open>
  C8. When some entry carries the tag, \<open>FindMaterial\<close> reports success and the output is
  the caller's material with the diffuse colour, the specular colour and the shininess of
  the first such entry, in insertion order (the tag of the output is not written). When
  the registry is not empty and no entry carries the tag, the output is left as it was.
\<close>

theorem FindMaterial_first_match:
  "(t \<in> OBJECT_MATERIAL.tag ` set mats \<longrightarrow>
      (\<exists>k < length mats.
         OBJECT_MATERIAL.tag (mats ! k) = t \<and>
         (\<forall>j < k. OBJECT_MATERIAL.tag (mats ! j) \<noteq> t) \<and>
         FindMaterial mats t material =
           (True, material\<lparr>diffuseColor := diffuseColor (mats ! k),
                           specularColor := specularColor (mats ! k),
                           shininess := shininess (mats ! k)\<rparr>))) \<and>
   (mats \<noteq> [] \<and> t \<notin> OBJECT_MATERIAL.tag ` set mats \<longrightarrow>
      snd (FindMaterial mats t material) = material)"
proof (intro conjI impI)
  assume "t \<in> OBJECT_MATERIAL.tag ` set mats"
  then obtain e where "e \<in> set mats" "OBJECT_MATERIAL.tag e = t" by blast
  then obtain i where i: "i < length mats \<and> OBJECT_MATERIAL.tag (mats ! i) = t"
    by (metis in_set_conv_nth)
  define k where "k = (LEAST i. i < length mats \<and> OBJECT_MATERIAL.tag (mats ! i) = t)"
  have k: "k < length mats \<and> OBJECT_MATERIAL.tag (mats ! k) = t"
    unfolding k_def using i by (rule LeastI)
  have first: "\<forall>j < k. OBJECT_MATERIAL.tag (mats ! j) \<noteq> t"
  proof (intro allI impI)
    fix j assume jk: "j < k"
    then have "\<not> (j < length mats \<and> OBJECT_MATERIAL.tag (mats ! j) = t)"
      unfolding k_def by (rule not_less_Least)
    moreover from jk k have "j < length mats" by simp
    ultimately show "OBJECT_MATERIAL.tag (mats ! j) \<noteq> t" by blast
  qed
  have ne: "length mats \<noteq> 0" using k by auto
  have "FindMaterial_loop mats t 0 False material =
          material\<lparr>diffuseColor := diffuseColor (mats ! k),
                   specularColor := specularColor (mats ! k),
                   shininess := shininess (mats ! k)\<rparr>"
    using k first by (intro FindMaterial_loop_first) simp_all
  with ne have "FindMaterial mats t material =
           (True, material\<lparr>diffuseColor := diffuseColor (mats ! k),
                           specularColor := specularColor (mats ! k),
                           shininess := shininess (mats ! k)\<rparr>)"
    by (simp only: FindMaterial_def if_False)
  with k first show "\<exists>k < length mats.
         OBJECT_MATERIAL.tag (mats ! k) = t \<and>
         (\<forall>j < k. OBJECT_MATERIAL.tag (mats ! j) \<noteq> t) \<and>
         FindMaterial mats t material =
           (True, material\<lparr>diffuseColor := diffuseColor (mats ! k),
                           specularColor := specularColor (mats ! k),
                           shininess := shininess (mats ! k)\<rparr>)"
    by blast
next
  assume a: "mats \<noteq> [] \<and> t \<notin> OBJECT_MATERIAL.tag ` set mats"
  then have "FindMaterial_loop mats t 0 False material = material"
    by (intro FindMaterial_loop_absent) auto
  with a show "snd (FindMaterial mats t material) = material"
    by (simp add: FindMaterial_def)
qed


theorem FindMaterial_first_match_witness:
  "''tent'' \<in> OBJECT_MATERIAL.tag ` set [floorMat, tentMat, tentMat2] \<and>
   FindMaterial [floorMat, tentMat, tentMat2] ''tent'' fireMat =
     (True, \<lparr>diffuseColor = Vec3 0.2 0.4 0.1, specularColor = Vec3 0.2 0.2 0.2,
             shininess = 16, tag = ''campfire''\<rparr>) \<and>
   [floorMat, tentMat] \<noteq> [] \<and>
   ''rock'' \<notin> OBJECT_MATERIAL.tag ` set [floorMat, tentMat] \<and>
   snd (FindMaterial [floorMat, tentMat] ''rock'' fireMat) = fireMat"
proof -
  let ?mats = "[floorMat, tentMat, tentMat2]"
  have h: "''tent'' \<in> OBJECT_MATERIAL.tag ` set ?mats"
    by (simp add: tentMat_def)
  with FindMaterial_first_match [of "''tent''" ?mats fireMat]
  obtain k where k: "k < length ?mats" "OBJECT_MATERIAL.tag (?mats ! k) = ''tent''"
      "\<forall>j < k. OBJECT_MATERIAL.tag (?mats ! j) \<noteq> ''tent''"
      "FindMaterial ?mats ''tent'' fireMat =
         (True, fireMat\<lparr>diffuseColor := diffuseColor (?mats ! k),
                        specularColor := specularColor (?mats ! k),
                        shininess := shininess (?mats ! k)\<rparr>)"
    by blast
  have "k = 1"
  proof -
    have t0: "OBJECT_MATERIAL.tag (?mats ! 0) \<noteq> ''tent''" by (simp add: floorMat_def)
    have t1: "OBJECT_MATERIAL.tag (?mats ! 1) = ''tent''" by (simp add: tentMat_def)
    from k(1) have "k = 0 \<or> k = 1 \<or> k = 2" by (simp add: less_Suc_eq) arith
    then show ?thesis
    proof (elim disjE)
      assume "k = 0"
      with k(2) t0 show ?thesis by simp
    next
      assume "k = 1"
      then show ?thesis .
    next
      assume "k = 2"
      then have "(1::nat) < k" by simp
      with k(3) have "OBJECT_MATERIAL.tag (?mats ! 1) \<noteq> ''tent''" by blast
      with t1 show ?thesis by simp
    qed
  qed
  with k(4) have found: "FindMaterial ?mats ''tent'' fireMat =
     (True, \<lparr>diffuseColor = Vec3 0.2 0.4 0.1, specularColor = Vec3 0.2 0.2 0.2,
             shininess = 16, tag = ''campfire''\<rparr>)"
    by (simp add: tentMat_def fireMat_def)
  have absent: "[floorMat, tentMat] \<noteq> [] \<and> ''rock'' \<notin> OBJECT_MATERIAL.tag ` set [floorMat, tentMat]"
    by (simp add: floorMat_def tentMat_def)
  with FindMaterial_first_match [of "''rock''" "[floorMat, tentMat]" fireMat]
  have "snd (FindMaterial [floorMat, tentMat] ''rock'' fireMat) = fireMat" by blast
  with h found absent show ?thesis by blast
qed

section \<open>Texture lookup: the loops\<close>

declare FindTextureID_loop.simps [simp del] FindTextureSlot_loop.simps [simp del]

lemma FindTextureSlot_loop_done:
  "FindTextureSlot_loop arr n t index True slot = slot"
  by (subst FindTextureSlot_loop.simps) simp

lemma FindTextureID_loop_done:
  "FindTextureID_loop arr n t index True tid = tid"
  by (subst FindTextureID_loop.simps) simp

lemma FindTextureSlot_loop_absent:
  "\<forall>j. index \<le> j \<and> j < n \<longrightarrow> TEXTURE_INFO.tag (arr ! nat j) \<noteq> t \<Longrightarrow>
   FindTextureSlot_loop arr n t index False slot = slot"
proof (induction "nat (n - index)" arbitrary: index)
  case 0
  then show ?case by (subst FindTextureSlot_loop.simps) simp
next
  case (Suc d)
  from Suc.hyps(2) have lt: "index < n" by simp
  with Suc.prems have ne: "TEXTURE_INFO.tag (arr ! nat index) \<noteq> t" by simp
  have "FindTextureSlot_loop arr n t (index + 1) False slot = slot"
    using Suc.hyps(2) Suc.prems by (intro Suc.hyps(1)) auto
  with lt ne show ?case by (subst FindTextureSlot_loop.simps) simp
qed

lemma FindTextureID_loop_absent:
  "\<forall>j. index \<le> j \<and> j < n \<longrightarrow> TEXTURE_INFO.tag (arr ! nat j) \<noteq> t \<Longrightarrow>
   FindTextureID_loop arr n t index False tid = tid"
proof (induction "nat (n - index)" arbitrary: index)
  case 0
  then show ?case by (subst FindTextureID_loop.simps) simp
next
  case (Suc d)
  from Suc.hyps(2) have lt: "index < n" by simp
  with Suc.prems have ne: "TEXTURE_INFO.tag (arr ! nat index) \<noteq> t" by simp
  have "FindTextureID_loop arr n t (index + 1) False tid = tid"
    using Suc.hyps(2) Suc.prems by (intro Suc.hyps(1)) auto
  with lt ne show ?case by (subst FindTextureID_loop.simps) simp
qed

lemma FindTextureSlot_loop_first:
  "index \<le> k \<Longrightarrow> k < n \<Longrightarrow> TEXTURE_INFO.tag (arr ! nat k) = t \<Longrightarrow>
   \<forall>j. index \<le> j \<and> j < k \<longrightarrow> TEXTURE_INFO.tag (arr ! nat j) \<noteq> t \<Longrightarrow>
   FindTextureSlot_loop arr n t index False slot = k"
proof (induction "nat (k - index)" arbitrary: index)
  case 0
  then have "index = k" by simp
  with 0 show ?case
    by (subst FindTextureSlot_loop.simps) (simp add: FindTextureSlot_loop_done)
next
  case (Suc d)
  from Suc.hyps(2) have lt: "index < k" by simp
  with Suc.prems have ne: "TEXTURE_INFO.tag (arr ! nat index) \<noteq> t" by simp
  have "FindTextureSlot_loop arr n t (index + 1) False slot = k"
    using Suc.hyps(2) Suc.prems by (intro Suc.hyps(1)) auto
  with lt ne Suc.prems(2) show ?case by (subst FindTextureSlot_loop.simps) simp
qed

lemma FindTextureID_loop_first:
  "index \<le> k \<Longrightarrow> k < n \<Longrightarrow> TEXTURE_INFO.tag (arr ! nat k) = t \<Longrightarrow>
   \<forall>j. index \<le> j \<and> j < k \<longrightarrow> TEXTURE_INFO.tag (arr ! nat j) \<noteq> t \<Longrightarrow>
   FindTextureID_loop arr n t index False tid = sint (ID (arr ! nat k))"
proof (induction "nat (k - index)" arbitrary: index)
  case 0
  then have "index = k" by simp
  with 0 show ?case
    by (subst FindTextureID_loop.simps) (simp add: FindTextureID_loop_done)
next
  case (Suc d)
  from Suc.hyps(2) have lt: "index < k" by simp
  with Suc.prems have ne: "TEXTURE_INFO.tag (arr ! nat index) \<noteq> t" by simp
  have "FindTextureID_loop arr n t (index + 1) False tid = sint (ID (arr ! nat k))"
    using Suc.hyps(2) Suc.prems by (intro Suc.hyps(1)) auto
  with lt ne Suc.prems(2) show ?case by (subst FindTextureID_loop.simps) simp
qed

text \<open>Among the indices below \<open>n\<close> that satisfy \<open>P\<close> there is a first one.\<close>

lemma first_match_exists:
  assumes "0 \<le> i" "i < n" "P (i::int)"
  shows "\<exists>k. 0 \<le> k \<and> k < n \<and> P k \<and> (\<forall>j. 0 \<le> j \<and> j < k \<longrightarrow> \<not> P j)"
proof -
  have pi: "P (int (nat i))" using assms by simp
  then have ex: "\<exists>m. P (int m)" by blast
  define k where "k = (LEAST m. P (int m))"
  have pk: "P (int k)" unfolding k_def using ex by (rule LeastI_ex)
  have le: "k \<le> nat i" unfolding k_def using pi by (rule Least_le)
  have mn: "\<And>j. j < k \<Longrightarrow> \<not> P (int j)" unfolding k_def by (rule not_less_Least)
  have "\<forall>j. 0 \<le> j \<and> j < int k \<longrightarrow> \<not> P j"
  proof (intro allI impI)
    fix j :: int assume "0 \<le> j \<and> j < int k"
    then have "nat j < k" "int (nat j) = j" by auto
    with mn[of "nat j"] show "\<not> P j" by simp
  qed
  with pk le assms show ?thesis by (intro exI[of _ "int k"]) auto
qed

section \<open>Registration: what \<open>CreateGLTexture\<close> changes\<close>

lemma on_bound_texture_frame [simp]:
  "m_pShaderManager (on_bound_texture f w) = m_pShaderManager w"
  "m_textureIDs (on_bound_texture f w) = m_textureIDs w"
  "m_loadedTextures (on_bound_texture f w) = m_loadedTextures w"
  "m_objectMaterials (on_bound_texture f w) = m_objectMaterials w"
  "shaders (on_bound_texture f w) = shaders w"
  "gl_active (on_bound_texture f w) = gl_active w"
  "gl_binding (on_bound_texture f w) = gl_binding w"
  "stbi_flip (on_bound_texture f w) = stbi_flip w"
  "stbi_buffers (on_bound_texture f w) = stbi_buffers w"
  "cout (on_bound_texture f w) = cout w"
  "cerr (on_bound_texture f w) = cerr w"
  by (simp_all add: on_bound_texture_def Let_def split: option.split)

lemma on_bound_texture_dom [simp]:
  "dom (gl_textures (on_bound_texture f w)) = dom (gl_textures w)"
  by (auto simp: on_bound_texture_def Let_def split: option.splits if_splits)

lemmas gl_defs = glGenTextures_def glBindTexture_def glTexParameteri_def glTexImage2D_def
  glGenerateMipmap_def stbi_set_flip_vertically_on_load_def stbi_image_free_def
  print_cout_def print_cerr_def

lemma cell_update_twice:
  "xs[i := ((xs[i := (xs ! i)\<lparr>ID := x\<rparr>]) ! i)\<lparr>TEXTURE_INFO.tag := t\<rparr>]
   = xs[i := \<lparr>ID = x, tag = t\<rparr>]"
proof (cases "i < length xs")
  case True
  have "(xs ! i)\<lparr>ID := x, TEXTURE_INFO.tag := t\<rparr> = \<lparr>ID = x, tag = t\<rparr>"
    by (cases "xs ! i") simp
  with True show ?thesis by (simp del: TEXTURE_INFO.simps)
next
  case False
  then have "length xs \<le> i" by simp
  then show ?thesis by (simp only: list_update_beyond length_list_update)
qed

lemma CreateGLTexture_register_registry:
  "CreateGLTexture_register MAX_TEXTURES textureID t w = (r, w') \<Longrightarrow>
   r = True \<and>
   (if m_loadedTextures w < MAX_TEXTURES
    then m_textureIDs w' = (m_textureIDs w)[nat (m_loadedTextures w) := \<lparr>ID = textureID, tag = t\<rparr>]
       \<and> m_loadedTextures w' = m_loadedTextures w + 1 \<and> cout w' = cout w
    else m_textureIDs w' = m_textureIDs w \<and> m_loadedTextures w' = m_loadedTextures w
       \<and> cout w' = cout w @ [Exceeded_MAX_TEXTURES]) \<and>
   m_pShaderManager w' = m_pShaderManager w \<and> m_objectMaterials w' = m_objectMaterials w \<and>
   shaders w' = shaders w \<and> cerr w' = cerr w"
  by (auto simp: CreateGLTexture_register_def Let_def gl_defs cell_update_twice)

lemma CreateGLTexture_register_dom:
  "dom (gl_textures (snd (CreateGLTexture_register MAX_TEXTURES textureID t w))) = dom (gl_textures w)"
  by (simp add: CreateGLTexture_register_def Let_def gl_defs)

lemma CreateGLTexture_registry:
  assumes "CreateGLTexture stbi_load MAX_TEXTURES name filename t w = (r, w')"
  shows "r = supported stbi_load filename"
    and "r \<and> m_loadedTextures w < MAX_TEXTURES \<Longrightarrow>
         m_textureIDs w' = (m_textureIDs w)[nat (m_loadedTextures w) := \<lparr>ID = name, tag = t\<rparr>]
         \<and> m_loadedTextures w' = m_loadedTextures w + 1"
    and "\<not> (r \<and> m_loadedTextures w < MAX_TEXTURES) \<Longrightarrow>
         m_textureIDs w' = m_textureIDs w \<and> m_loadedTextures w' = m_loadedTextures w"
    and "m_pShaderManager w' = m_pShaderManager w"
    and "m_objectMaterials w' = m_objectMaterials w"
    and "shaders w' = shaders w" and "cerr w' = cerr w"
  using assms
  by (auto simp: CreateGLTexture_def supported_def Let_def gl_defs
       dest!: CreateGLTexture_register_registry split: option.splits if_splits)

lemma CreateGLTexture_dom:
  "dom (gl_textures (snd (CreateGLTexture stbi_load MAX_TEXTURES name filename t w))) =
     (if stbi_load True filename = None then dom (gl_textures w)
      else insert name (dom (gl_textures w)))"
  by (simp add: CreateGLTexture_def Let_def gl_defs CreateGLTexture_register_dom
       split: option.split)

section \<open>Texture lookup: the two lookups\<close>

lemma FindTexture_first:
  assumes "0 \<le> k" "k < m_loadedTextures w"
    and "TEXTURE_INFO.tag (m_textureIDs w ! nat k) = t"
    and "\<forall>j. 0 \<le> j \<and> j < k \<longrightarrow> TEXTURE_INFO.tag (m_textureIDs w ! nat j) \<noteq> t"
  shows "FindTextureSlot t w = k"
    and "FindTextureID t w = sint (ID (m_textureIDs w ! nat k))"
  using assms
  by (simp_all add: FindTextureSlot_def FindTextureID_def
        FindTextureSlot_loop_first FindTextureID_loop_first)

lemma FindTexture_absent:
  assumes "\<forall>j. 0 \<le> j \<and> j < m_loadedTextures w \<longrightarrow> TEXTURE_INFO.tag (m_textureIDs w ! nat j) \<noteq> t"
  shows "FindTextureSlot t w = - 1" and "FindTextureID t w = - 1"
  using assms
  by (simp_all add: FindTextureSlot_def FindTextureID_def
        FindTextureSlot_loop_absent FindTextureID_loop_absent)

lemma FindTexture_same_registry:
  assumes "m_textureIDs w' = m_textureIDs w" "m_loadedTextures w' = m_loadedTextures w"
  shows "FindTextureSlot t w' = FindTextureSlot t w" and "FindTextureID t w' = FindTextureID t w"
  using assms by (simp_all add: FindTextureSlot_def FindTextureID_def)

text \<open>A tag is registered when one of the first \<open>m_loadedTextures\<close> cells carries it.\<close>

lemma FindTexture_registered:
  assumes "0 \<le> i" "i < m_loadedTextures w" "TEXTURE_INFO.tag (m_textureIDs w ! nat i) = t"
  shows "\<exists>k. 0 \<le> k \<and> k < m_loadedTextures w \<and>
           TEXTURE_INFO.tag (m_textureIDs w ! nat k) = t \<and>
           (\<forall>j. 0 \<le> j \<and> j < k \<longrightarrow> TEXTURE_INFO.tag (m_textureIDs w ! nat j) \<noteq> t) \<and>
           FindTextureSlot t w = k \<and> FindTextureID t w = sint (ID (m_textureIDs w ! nat k))"
proof -
  from first_match_exists [of i "m_loadedTextures w"
      "\<lambda>j. TEXTURE_INFO.tag (m_textureIDs w ! nat j) = t", OF assms]
  obtain k where k: "0 \<le> k" "k < m_loadedTextures w"
      "TEXTURE_INFO.tag (m_textureIDs w ! nat k) = t"
      "\<forall>j. 0 \<le> j \<and> j < k \<longrightarrow> TEXTURE_INFO.tag (m_textureIDs w ! nat j) \<noteq> t"
    by blast
  from FindTexture_first [OF k] k show ?thesis by blast
qed

text \<open>The lookups after a cell was stored at index \<open>m_loadedTextures\<close>.\<close>

lemma FindTexture_after_store:
  assumes n: "0 \<le> m_loadedTextures w" "nat (m_loadedTextures w) < length (m_textureIDs w)"
    and arr: "m_textureIDs w' = (m_textureIDs w)[nat (m_loadedTextures w) := \<lparr>ID = name, tag = t\<rparr>]"
    and cnt: "m_loadedTextures w' = m_loadedTextures w + 1"
  shows "(\<exists>i. 0 \<le> i \<and> i < m_loadedTextures w \<and> TEXTURE_INFO.tag (m_textureIDs w ! nat i) = t') \<Longrightarrow>
           FindTextureSlot t' w' = FindTextureSlot t' w \<and> FindTextureID t' w' = FindTextureID t' w"
    and "\<forall>i. 0 \<le> i \<and> i < m_loadedTextures w \<longrightarrow> TEXTURE_INFO.tag (m_textureIDs w ! nat i) \<noteq> t \<Longrightarrow>
           FindTextureSlot t w' = m_loadedTextures w \<and> FindTextureID t w' = sint name"
    and "\<forall>i. 0 \<le> i \<and> i < m_loadedTextures w \<longrightarrow> TEXTURE_INFO.tag (m_textureIDs w ! nat i) \<noteq> t' \<Longrightarrow>
           t' \<noteq> t \<Longrightarrow> FindTextureSlot t' w' = - 1 \<and> FindTextureID t' w' = - 1"
proof -
  have old: "m_textureIDs w' ! nat j = m_textureIDs w ! nat j"
    if "0 \<le> j" "j < m_loadedTextures w" for j
    using that n by (simp add: arr)
  have new: "m_textureIDs w' ! nat (m_loadedTextures w) = \<lparr>ID = name, tag = t\<rparr>"
    using n by (simp add: arr)
  {
    assume "\<exists>i. 0 \<le> i \<and> i < m_loadedTextures w \<and> TEXTURE_INFO.tag (m_textureIDs w ! nat i) = t'"
    then obtain i where "0 \<le> i" "i < m_loadedTextures w" "TEXTURE_INFO.tag (m_textureIDs w ! nat i) = t'"
      by blast
    from FindTexture_registered [OF this]
    obtain k where k: "0 \<le> k" "k < m_loadedTextures w"
        "TEXTURE_INFO.tag (m_textureIDs w ! nat k) = t'"
        "\<forall>j. 0 \<le> j \<and> j < k \<longrightarrow> TEXTURE_INFO.tag (m_textureIDs w ! nat j) \<noteq> t'"
        "FindTextureSlot t' w = k" "FindTextureID t' w = sint (ID (m_textureIDs w ! nat k))"
      by blast
    have k': "0 \<le> k" "k < m_loadedTextures w'"
        "TEXTURE_INFO.tag (m_textureIDs w' ! nat k) = t'"
        "\<forall>j. 0 \<le> j \<and> j < k \<longrightarrow> TEXTURE_INFO.tag (m_textureIDs w' ! nat j) \<noteq> t'"
      using k old by (simp_all add: cnt)
    from FindTexture_first [OF k'] k(5,6) old [OF k(1,2)]
    show "FindTextureSlot t' w' = FindTextureSlot t' w \<and> FindTextureID t' w' = FindTextureID t' w"
      by simp
  }
  {
    assume a: "\<forall>i. 0 \<le> i \<and> i < m_loadedTextures w \<longrightarrow> TEXTURE_INFO.tag (m_textureIDs w ! nat i) \<noteq> t"
    have k': "0 \<le> m_loadedTextures w" "m_loadedTextures w < m_loadedTextures w'"
        "TEXTURE_INFO.tag (m_textureIDs w' ! nat (m_loadedTextures w)) = t"
        "\<forall>j. 0 \<le> j \<and> j < m_loadedTextures w \<longrightarrow> TEXTURE_INFO.tag (m_textureIDs w' ! nat j) \<noteq> t"
      using n a old new by (simp_all add: cnt)
    from FindTexture_first [OF k'] new
    show "FindTextureSlot t w' = m_loadedTextures w \<and> FindTextureID t w' = sint name"
      by simp
  }
  {
    assume a: "\<forall>i. 0 \<le> i \<and> i < m_loadedTextures w \<longrightarrow> TEXTURE_INFO.tag (m_textureIDs w ! nat i) \<noteq> t'"
      and ne: "t' \<noteq> t"
    have "\<forall>j. 0 \<le> j \<and> j < m_loadedTextures w' \<longrightarrow> TEXTURE_INFO.tag (m_textureIDs w' ! nat j) \<noteq> t'"
    proof (intro allI impI)
      fix j assume j: "0 \<le> j \<and> j < m_loadedTextures w'"
      then have "j < m_loadedTextures w \<or> j = m_loadedTextures w" by (auto simp: cnt)
      then show "TEXTURE_INFO.tag (m_textureIDs w' ! nat j) \<noteq> t'"
      proof
        assume "j < m_loadedTextures w"
        with j a old show ?thesis by simp
      next
        assume "j = m_loadedTextures w"
        with new ne show ?thesis by simp
      qed
    qed
    from FindTexture_absent [OF this]
    show "FindTextureSlot t' w' = - 1 \<and> FindTextureID t' w' = - 1" by simp
  }
qed

section \<open>The concrete scenes\<close>

lemma scene0_registry:
  "m_textureIDs scene0 = [\<lparr>ID = 0, tag = []\<rparr>, \<lparr>ID = 0, tag = []\<rparr>]"
  "m_loadedTextures scene0 = 0"
  "m_pShaderManager scene0 = Some 0"
  by (simp_all add: scene0_def SceneManager_ctor_def blank_world_def numeral_2_eq_2)

lemma disk_supported:
  "supported disk ''textures/tent.jpg''" "supported disk ''textures/sky.png''"
  "\<not> supported disk ''textures/grey.png''" "\<not> supported disk ''textures/rock.jpg''"
  by (simp_all add: supported_def disk_def)

lemma scene1_Create:
  "CreateGLTexture disk 2 1 ''textures/tent.jpg'' ''tent'' scene0 = (True, scene1)"
  using CreateGLTexture_registry(1) [of disk 2 1 "''textures/tent.jpg''" "''tent''" scene0
      "fst (CreateGLTexture disk 2 1 ''textures/tent.jpg'' ''tent'' scene0)" scene1]
  by (simp add: scene1_def disk_supported prod_eq_iff)

lemma scene1_registry:
  "m_textureIDs scene1 = [\<lparr>ID = 1, tag = ''tent''\<rparr>, \<lparr>ID = 0, tag = []\<rparr>]"
  "m_loadedTextures scene1 = 1"
  "m_pShaderManager scene1 = Some 0"
  using CreateGLTexture_registry(2,4) [OF scene1_Create]
  by (simp_all add: scene0_registry)

lemma scene2_Create:
  "CreateGLTexture disk 2 2 ''textures/sky.png'' ''sky'' scene1 = (True, scene2)"
  using CreateGLTexture_registry(1) [of disk 2 2 "''textures/sky.png''" "''sky''" scene1
      "fst (CreateGLTexture disk 2 2 ''textures/sky.png'' ''sky'' scene1)" scene2]
  by (simp add: scene2_def disk_supported prod_eq_iff)

lemma scene2_registry:
  "m_textureIDs scene2 = [\<lparr>ID = 1, tag = ''tent''\<rparr>, \<lparr>ID = 2, tag = ''sky''\<rparr>]"
  "m_loadedTextures scene2 = 2"
  "m_pShaderManager scene2 = Some 0"
  using CreateGLTexture_registry(2,4) [OF scene2_Create]
  by (simp_all add: scene1_registry)

lemma scene2_lookup:
  "FindTextureSlot ''tent'' scene2 = 0" "FindTextureID ''tent'' scene2 = 1"
  "FindTextureSlot ''sky'' scene2 = 1" "FindTextureID ''sky'' scene2 = 2"
proof -
  have "FindTextureSlot ''tent'' scene2 = 0 \<and>
        FindTextureID ''tent'' scene2 = sint (ID (m_textureIDs scene2 ! nat 0))"
    by (intro conjI FindTexture_first) (simp_all add: scene2_registry)
  then show "FindTextureSlot ''tent'' scene2 = 0" "FindTextureID ''tent'' scene2 = 1"
    by (simp_all add: scene2_registry)
  have first: "\<forall>j. 0 \<le> j \<and> j < 1 \<longrightarrow> TEXTURE_INFO.tag (m_textureIDs scene2 ! nat j) \<noteq> ''sky''"
  proof (intro allI impI)
    fix j :: int assume "0 \<le> j \<and> j < 1"
    then have "j = 0" by simp
    then show "TEXTURE_INFO.tag (m_textureIDs scene2 ! nat j) \<noteq> ''sky''"
      by (simp add: scene2_registry)
  qed
  have "FindTextureSlot ''sky'' scene2 = 1 \<and>
        FindTextureID ''sky'' scene2 = sint (ID (m_textureIDs scene2 ! nat 1))"
    using first by (intro conjI FindTexture_first) (simp_all add: scene2_registry)
  then show "FindTextureSlot ''sky'' scene2 = 1" "FindTextureID ''sky'' scene2 = 2"
    by (simp_all add: scene2_registry)
qed

lemma scene3_Create:
  "CreateGLTexture disk 2 3 ''textures/tent.jpg'' ''third'' scene2 = (True, scene3)"
  using CreateGLTexture_registry(1) [of disk 2 3 "''textures/tent.jpg''" "''third''" scene2
      "fst (CreateGLTexture disk 2 3 ''textures/tent.jpg'' ''third'' scene2)" scene3]
  by (simp add: scene3_def disk_supported prod_eq_iff)

lemma scene_grey_Create:
  "CreateGLTexture disk 2 3 ''textures/grey.png'' ''grey'' scene1 = (False, scene_grey)"
  using CreateGLTexture_registry(1) [of disk 2 3 "''textures/grey.png''" "''grey''" scene1
      "fst (CreateGLTexture disk 2 3 ''textures/grey.png'' ''grey'' scene1)" scene_grey]
  by (simp add: scene_grey_def disk_supported prod_eq_iff)

section \<open>Teardown: what \<open>DestroyGLTextures\<close> changes\<close>

lemma glDeleteTextures_frame [simp]:
  "m_pShaderManager (glDeleteTextures n w) = m_pShaderManager w"
  "m_textureIDs (glDeleteTextures n w) = m_textureIDs w"
  "m_loadedTextures (glDeleteTextures n w) = m_loadedTextures w"
  "m_objectMaterials (glDeleteTextures n w) = m_objectMaterials w"
  "shaders (glDeleteTextures n w) = shaders w"
  "cout (glDeleteTextures n w) = cout w"
  "cerr (glDeleteTextures n w) = cerr w"
  by (simp_all add: glDeleteTextures_def)

lemma glDeleteTextures_textures:
  "gl_textures (glDeleteTextures n w) m =
     (if n \<noteq> 0 \<and> m = n then None else gl_textures w m)"
  by (simp add: glDeleteTextures_def)

text \<open>The loop of \<open>DestroyGLTextures\<close> over the indices \<open>is\<close>.\<close>

lemma delete_loop_frame:
  "m_pShaderManager (fold (\<lambda>i w. glDeleteTextures (ID (m_textureIDs w ! i)) w) is w) = m_pShaderManager w \<and>
   m_textureIDs (fold (\<lambda>i w. glDeleteTextures (ID (m_textureIDs w ! i)) w) is w) = m_textureIDs w \<and>
   m_loadedTextures (fold (\<lambda>i w. glDeleteTextures (ID (m_textureIDs w ! i)) w) is w) = m_loadedTextures w \<and>
   m_objectMaterials (fold (\<lambda>i w. glDeleteTextures (ID (m_textureIDs w ! i)) w) is w) = m_objectMaterials w \<and>
   shaders (fold (\<lambda>i w. glDeleteTextures (ID (m_textureIDs w ! i)) w) is w) = shaders w \<and>
   cout (fold (\<lambda>i w. glDeleteTextures (ID (m_textureIDs w ! i)) w) is w) = cout w \<and>
   cerr (fold (\<lambda>i w. glDeleteTextures (ID (m_textureIDs w ! i)) w) is w) = cerr w"
  by (induction "is" arbitrary: w) simp_all

lemma delete_loop_textures:
  "gl_textures (fold (\<lambda>i w. glDeleteTextures (ID (m_textureIDs w ! i)) w) is w) m =
     (if m \<noteq> 0 \<and> m \<in> (\<lambda>i. ID (m_textureIDs w ! i)) ` set is then None else gl_textures w m)"
proof (induction "is" arbitrary: w)
  case Nil
  show ?case by simp
next
  case (Cons i "is")
  show ?case
    by (simp add: Cons.IH glDeleteTextures_textures)
qed

lemma DestroyGLTextures_registry:
  "m_loadedTextures (DestroyGLTextures w) = 0"
  "m_textureIDs (DestroyGLTextures w) = m_textureIDs w"
  "m_pShaderManager (DestroyGLTextures w) = m_pShaderManager w"
  "shaders (DestroyGLTextures w) = shaders w"
  "cout (DestroyGLTextures w) = cout w"
  "cerr (DestroyGLTextures w) = cerr w"
  by (simp_all add: DestroyGLTextures_def Let_def delete_loop_frame)

lemma DestroyGLTextures_textures:
  "gl_textures (DestroyGLTextures w) m =
     (if m \<noteq> 0 \<and> (\<exists>i. 0 \<le> i \<and> i < m_loadedTextures w \<and> ID (m_textureIDs w ! nat i) = m)
      then None else gl_textures w m)"
proof -
  have "(m \<in> (\<lambda>i. ID (m_textureIDs w ! i)) ` set [0..<nat (m_loadedTextures w)]) \<longleftrightarrow>
        (\<exists>i. 0 \<le> i \<and> i < m_loadedTextures w \<and> ID (m_textureIDs w ! nat i) = m)"
  proof
    assume "m \<in> (\<lambda>i. ID (m_textureIDs w ! i)) ` set [0..<nat (m_loadedTextures w)]"
    then obtain j where j: "j < nat (m_loadedTextures w)" "m = ID (m_textureIDs w ! j)" by auto
    then have "0 \<le> int j \<and> int j < m_loadedTextures w \<and> ID (m_textureIDs w ! nat (int j)) = m"
      by simp
    then show "\<exists>i. 0 \<le> i \<and> i < m_loadedTextures w \<and> ID (m_textureIDs w ! nat i) = m" by blast
  next
    assume "\<exists>i. 0 \<le> i \<and> i < m_loadedTextures w \<and> ID (m_textureIDs w ! nat i) = m"
    then obtain i where i: "0 \<le> i" "i < m_loadedTextures w" "ID (m_textureIDs w ! nat i) = m" by blast
    then have "nat i \<in> set [0..<nat (m_loadedTextures w)]" by simp
    with i(3) show "m \<in> (\<lambda>i. ID (m_textureIDs w ! i)) ` set [0..<nat (m_loadedTextures w)]"
      by (metis (mono_tags, lifting) imageI)
  qed
  then show ?thesis
    by (simp add: DestroyGLTextures_def Let_def delete_loop_textures)
qed

lemma DestroyGLTextures_empty:
  "m_loadedTextures w = 0 \<Longrightarrow> DestroyGLTextures w = w"
  by (simp add: DestroyGLTextures_def)

section \<open>The registry under every call\<close>

lemma setUniform_frame [simp]:
  "m_pShaderManager (setUniform a name v w) = m_pShaderManager w"
  "m_textureIDs (setUniform a name v w) = m_textureIDs w"
  "m_loadedTextures (setUniform a name v w) = m_loadedTextures w"
  "cout (setUniform a name v w) = cout w"
  "cerr (setUniform a name v w) = cerr w"
  "gl_textures (setUniform a name v w) = gl_textures w"
  by (simp_all add: setUniform_def)

lemma setters_registry:
  "m_textureIDs (SetTransformations s rx ry rz p w) = m_textureIDs w"
  "m_loadedTextures (SetTransformations s rx ry rz p w) = m_loadedTextures w"
  "m_textureIDs (SetShaderColor r g b al w) = m_textureIDs w"
  "m_loadedTextures (SetShaderColor r g b al w) = m_loadedTextures w"
  "m_textureIDs (SetShaderTexture t w) = m_textureIDs w"
  "m_loadedTextures (SetShaderTexture t w) = m_loadedTextures w"
  "m_textureIDs (SetTextureUVScale u v w) = m_textureIDs w"
  "m_loadedTextures (SetTextureUVScale u v w) = m_loadedTextures w"
  by (simp_all add: SetTransformations_def SetShaderColor_def SetShaderTexture_def
        SetTextureUVScale_def Let_def print_cerr_def split: option.split)

lemma bind_loop_registry:
  "m_textureIDs (fold (\<lambda>i w. glBindTexture (ID (m_textureIDs w ! i)) (glActiveTexture i w)) is w)
     = m_textureIDs w \<and>
   m_loadedTextures (fold (\<lambda>i w. glBindTexture (ID (m_textureIDs w ! i)) (glActiveTexture i w)) is w)
     = m_loadedTextures w"
  by (induction "is" arbitrary: w) (simp_all add: glBindTexture_def glActiveTexture_def)

lemma BindGLTextures_registry:
  "m_textureIDs (BindGLTextures w) = m_textureIDs w"
  "m_loadedTextures (BindGLTextures w) = m_loadedTextures w"
  by (simp_all add: BindGLTextures_def bind_loop_registry)

lemma CreateGLTexture_invariant:
  assumes "texture_invariant MAX_TEXTURES w"
  shows "texture_invariant MAX_TEXTURES (snd (CreateGLTexture stbi_load MAX_TEXTURES name filename t w))"
proof -
  obtain r w' where cr: "CreateGLTexture stbi_load MAX_TEXTURES name filename t w = (r, w')"
    by (cases "CreateGLTexture stbi_load MAX_TEXTURES name filename t w")
  show ?thesis
  proof (cases "r \<and> m_loadedTextures w < MAX_TEXTURES")
    case True
    from CreateGLTexture_registry(2) [OF cr True] assms True show ?thesis
      by (simp add: cr texture_invariant_def)
  next
    case False
    from CreateGLTexture_registry(3) [OF cr False] assms show ?thesis
      by (simp add: cr texture_invariant_def)
  qed
qed

lemma call_invariant:
  "texture_invariant MAX_TEXTURES w \<Longrightarrow> texture_invariant MAX_TEXTURES (call stbi_load MAX_TEXTURES c w)"
proof (cases c)
  case (Call_CreateGLTexture filename t name)
  assume "texture_invariant MAX_TEXTURES w"
  then show ?thesis unfolding Call_CreateGLTexture call.simps by (rule CreateGLTexture_invariant)
qed (simp_all add: texture_invariant_def setters_registry BindGLTextures_registry
       DestroyGLTextures_registry)

lemma run_invariant:
  "texture_invariant MAX_TEXTURES w \<Longrightarrow> texture_invariant MAX_TEXTURES (run stbi_load MAX_TEXTURES calls w)"
  unfolding run_def by (induction calls arbitrary: w) (simp_all add: call_invariant)

lemma ctor_invariant:
  "0 \<le> MAX_TEXTURES \<Longrightarrow> texture_invariant MAX_TEXTURES (SceneManager_ctor MAX_TEXTURES junk p w)"
  by (simp add: texture_invariant_def SceneManager_ctor_def)

section \<open>Registration at capacity and of unsupported images\<close>

lemma CreateGLTexture_register_full:
  "\<not> m_loadedTextures w < MAX_TEXTURES \<Longrightarrow>
   cout (snd (CreateGLTexture_register MAX_TEXTURES textureID t w)) = cout w @ [Exceeded_MAX_TEXTURES]"
  by (simp add: CreateGLTexture_register_def Let_def gl_defs)

lemma CreateGLTexture_full_cout:
  assumes "stbi_load True filename = Some img"
    and "img_channels img = 3 \<or> img_channels img = 4"
    and "\<not> m_loadedTextures w < MAX_TEXTURES"
  shows "cout (snd (CreateGLTexture stbi_load MAX_TEXTURES name filename t w)) =
           cout w @ [Successfully_loaded_image filename (img_width img) (img_height img)
                       (img_channels img), Exceeded_MAX_TEXTURES]"
  using assms
  by (auto simp: CreateGLTexture_def Let_def CreateGLTexture_register_full gl_defs)

lemma CreateGLTexture_unsupported:
  assumes "stbi_load True filename = Some img"
    and "img_channels img \<noteq> 3" "img_channels img \<noteq> 4"
  shows "fst (CreateGLTexture stbi_load MAX_TEXTURES name filename t w) = False"
    and "name \<in> dom (gl_textures (snd (CreateGLTexture stbi_load MAX_TEXTURES name filename t w)))"
    and "m_textureIDs (snd (CreateGLTexture stbi_load MAX_TEXTURES name filename t w)) = m_textureIDs w"
    and "m_loadedTextures (snd (CreateGLTexture stbi_load MAX_TEXTURES name filename t w))
           = m_loadedTextures w"
proof -
  obtain r w' where cr: "CreateGLTexture stbi_load MAX_TEXTURES name filename t w = (r, w')"
    by (cases "CreateGLTexture stbi_load MAX_TEXTURES name filename t w")
  from CreateGLTexture_registry(1) [OF cr] assms have r: "r = False"
    by (simp add: supported_def)
  with cr show "fst (CreateGLTexture stbi_load MAX_TEXTURES name filename t w) = False" by simp
  from CreateGLTexture_registry(3) [OF cr] r cr
  show "m_textureIDs (snd (CreateGLTexture stbi_load MAX_TEXTURES name filename t w)) = m_textureIDs w"
    "m_loadedTextures (snd (CreateGLTexture stbi_load MAX_TEXTURES name filename t w))
           = m_loadedTextures w"
    by simp_all
  from assms(1)
  show "name \<in> dom (gl_textures (snd (CreateGLTexture stbi_load MAX_TEXTURES name filename t w)))"
    by (simp add: CreateGLTexture_dom)
qed

lemma scene1_textures: "dom (gl_textures scene1) = {1}"
  using CreateGLTexture_dom [of disk 2 1 "''textures/tent.jpg''" "''tent''" scene0]
  by (simp add: scene1_def [symmetric] disk_def)
    (simp add: scene0_def SceneManager_ctor_def blank_world_def)

lemma scene_grey_registry:
  "m_textureIDs scene_grey = m_textureIDs scene1" "m_loadedTextures scene_grey = m_loadedTextures scene1"
  using CreateGLTexture_registry(3) [OF scene_grey_Create] by simp_all

section \<open>Shader binding: the writes\<close>

lemma uniform_value_append:
  "uniform_value (ws @ [(n, v)]) name = (if name = n then Some v else uniform_value ws name)"
  by (induction ws) (auto split: option.splits)

lemma FindTextureSlot_setUniform [simp]:
  "FindTextureSlot t (setUniform a name v w) = FindTextureSlot t w"
  by (simp add: FindTextureSlot_def)

lemma uniform_names_distinct: "g_TextureValueName \<noteq> g_UseTextureName"
  by (simp add: g_TextureValueName_def g_UseTextureName_def)

lemma scene2_shaders: "shaders scene2 = (\<lambda>a. [])" "cerr scene2 = []"
  using CreateGLTexture_registry(6,7) [OF scene2_Create]
    CreateGLTexture_registry(6,7) [OF scene1_Create]
  by (simp_all add: scene0_def SceneManager_ctor_def blank_world_def)

lemma scene2_sky_registry:
  "m_textureIDs scene2_sky = m_textureIDs scene2"
  "m_loadedTextures scene2_sky = m_loadedTextures scene2"
  "m_pShaderManager scene2_sky = Some 0"
  by (simp_all add: scene2_sky_def setters_registry)
    (simp add: SetShaderTexture_def Let_def print_cerr_def scene2_registry)

lemma scene2_sky_rock: "FindTextureSlot ''rock'' scene2_sky = - 1"
proof (rule FindTexture_absent(1), intro allI impI)
  fix j :: int assume "0 \<le> j \<and> j < m_loadedTextures scene2_sky"
  then have "j = 0 \<or> j = 1" by (simp add: scene2_sky_registry scene2_registry) arith
  then show "TEXTURE_INFO.tag (m_textureIDs scene2_sky ! nat j) \<noteq> ''rock''"
    by (auto simp: scene2_sky_registry scene2_registry)
qed

section \<open>Transform builder: matrices acting on points\<close>

lemma mat4_components:
  obtains a0 a1 a2 a3 b0 b1 b2 b3 c0 c1 c2 c3 d0 d1 d2 d3 where
    "A = Mat4 (Vec4 a0 a1 a2 a3) (Vec4 b0 b1 b2 b3) (Vec4 c0 c1 c2 c3) (Vec4 d0 d1 d2 d3)"
proof (cases A)
  case (Mat4 m0 m1 m2 m3)
  with that show thesis by (cases m0; cases m1; cases m2; cases m3) simp
qed

lemma mat4_times_vec4_plus:
  "mat4_times_vec4 A (vec4_plus u v) = vec4_plus (mat4_times_vec4 A u) (mat4_times_vec4 A v)"
  by (cases A rule: mat4_components; cases u; cases v) (simp add: algebra_simps)

lemma mat4_times_vec4_times:
  "mat4_times_vec4 A (vec4_times v s) = vec4_times (mat4_times_vec4 A v) s"
  by (cases A rule: mat4_components; cases v) (simp add: algebra_simps)

lemma mat4_times_assoc:
  "mat4_times_vec4 (A * B) v = mat4_times_vec4 A (mat4_times_vec4 B v)"
  by (cases B; cases v) (simp add: mat4_times_vec4_plus mat4_times_vec4_times)

lemma glm_scale_point:
  "mat4_times_vec4 (glm_scale (Vec3 sx sy sz)) (Vec4 x y z u) = Vec4 (sx * x) (sy * y) (sz * z) u"
  by (simp add: mat4_identity_def)

lemma glm_translate_point:
  "mat4_times_vec4 (glm_translate (Vec3 tx ty tz)) (Vec4 x y z u) =
     Vec4 (x + tx * u) (y + ty * u) (z + tz * u) u"
  by (simp add: mat4_identity_def)

lemma glm_rotate_X_point:
  "mat4_times_vec4 (glm_rotate \<theta> (Vec3 1 0 0)) (Vec4 x y z u) =
     Vec4 x (cos \<theta> * y - sin \<theta> * z) (sin \<theta> * y + cos \<theta> * z) u"
  by (simp add: glm_rotate_def Let_def mat4_identity_def)

lemma glm_rotate_Y_point:
  "mat4_times_vec4 (glm_rotate \<theta> (Vec3 0 1 0)) (Vec4 x y z u) =
     Vec4 (cos \<theta> * x + sin \<theta> * z) y (cos \<theta> * z - sin \<theta> * x) u"
  by (simp add: glm_rotate_def Let_def mat4_identity_def)

lemma glm_rotate_Z_point:
  "mat4_times_vec4 (glm_rotate \<theta> (Vec3 0 0 1)) (Vec4 x y z u) =
     Vec4 (cos \<theta> * x - sin \<theta> * y) (sin \<theta> * x + cos \<theta> * y) z u"
  by (simp add: glm_rotate_def Let_def mat4_identity_def)

lemma glm_identity:
  "glm_scale (Vec3 1 1 1) = mat4_identity"
  "glm_translate (Vec3 0 0 0) = mat4_identity"
  "glm_rotate (glm_radians 0) (Vec3 1 0 0) = mat4_identity"
  "glm_rotate (glm_radians 0) (Vec3 0 1 0) = mat4_identity"
  "glm_rotate (glm_radians 0) (Vec3 0 0 1) = mat4_identity"
  by (simp_all add: glm_rotate_def glm_radians_def Let_def mat4_identity_def)

lemma mat4_identity_times: "mat4_identity * mat4_identity = mat4_identity"
  by (simp add: mat4_identity_def)

section \<open>Texture lookup and teardown: properties\<close>

text \<open>
  C5. For a tag that one of the registered cells carries, \<open>FindTextureSlot\<close> returns the
  index of the first such cell, which lies in the range from 0 to the registered count,
  and \<open>FindTextureID\<close> returns the ID of that cell, converted to \<open>int\<close>; converting back
  gives the handle. For a tag that no registered cell carries, both return -1. A
  registration that succeeds below capacity makes its tag resolve: to the new cell and
  the new handle when the tag was not registered before, and to the earlier cell otherwise.
\<close>

theorem FindTexture_lookup:
  "((\<exists>i. 0 \<le> i \<and> i < m_loadedTextures w \<and> TEXTURE_INFO.tag (m_textureIDs w ! nat i) = t) \<longrightarrow>
      (\<exists>k. 0 \<le> k \<and> k < m_loadedTextures w \<and>
           TEXTURE_INFO.tag (m_textureIDs w ! nat k) = t \<and>
           (\<forall>j. 0 \<le> j \<and> j < k \<longrightarrow> TEXTURE_INFO.tag (m_textureIDs w ! nat j) \<noteq> t) \<and>
           FindTextureSlot t w = k \<and>
           FindTextureID t w = sint (ID (m_textureIDs w ! nat k)) \<and>
           word_of_int (FindTextureID t w) = ID (m_textureIDs w ! nat k))) \<and>
   ((\<forall>i. 0 \<le> i \<and> i < m_loadedTextures w \<longrightarrow> TEXTURE_INFO.tag (m_textureIDs w ! nat i) \<noteq> t) \<longrightarrow>
      FindTextureSlot t w = - 1 \<and> FindTextureID t w = - 1) \<and>
   (0 \<le> m_loadedTextures w \<and> m_loadedTextures w < MAX_TEXTURES \<and>
    MAX_TEXTURES = int (length (m_textureIDs w)) \<and>
    CreateGLTexture stbi_load MAX_TEXTURES name filename t w = (True, w') \<longrightarrow>
      m_loadedTextures w' = m_loadedTextures w + 1 \<and>
      0 \<le> FindTextureSlot t w' \<and> FindTextureSlot t w' < m_loadedTextures w' \<and>
      (if \<exists>i. 0 \<le> i \<and> i < m_loadedTextures w \<and> TEXTURE_INFO.tag (m_textureIDs w ! nat i) = t
       then FindTextureSlot t w' = FindTextureSlot t w \<and> FindTextureID t w' = FindTextureID t w
       else FindTextureSlot t w' = m_loadedTextures w \<and> FindTextureID t w' = sint name \<and>
            word_of_int (FindTextureID t w') = name))"
proof (intro conjI impI)
  assume "\<exists>i. 0 \<le> i \<and> i < m_loadedTextures w \<and> TEXTURE_INFO.tag (m_textureIDs w ! nat i) = t"
  then obtain i where "0 \<le> i" "i < m_loadedTextures w"
      "TEXTURE_INFO.tag (m_textureIDs w ! nat i) = t"
    by blast
  from FindTexture_registered [OF this]
  obtain k where k: "0 \<le> k \<and> k < m_loadedTextures w \<and>
           TEXTURE_INFO.tag (m_textureIDs w ! nat k) = t \<and>
           (\<forall>j. 0 \<le> j \<and> j < k \<longrightarrow> TEXTURE_INFO.tag (m_textureIDs w ! nat j) \<noteq> t) \<and>
           FindTextureSlot t w = k \<and> FindTextureID t w = sint (ID (m_textureIDs w ! nat k))"
    by blast
  then have "word_of_int (FindTextureID t w) = ID (m_textureIDs w ! nat k)" by simp
  with k show "\<exists>k. 0 \<le> k \<and> k < m_loadedTextures w \<and>
           TEXTURE_INFO.tag (m_textureIDs w ! nat k) = t \<and>
           (\<forall>j. 0 \<le> j \<and> j < k \<longrightarrow> TEXTURE_INFO.tag (m_textureIDs w ! nat j) \<noteq> t) \<and>
           FindTextureSlot t w = k \<and>
           FindTextureID t w = sint (ID (m_textureIDs w ! nat k)) \<and>
           word_of_int (FindTextureID t w) = ID (m_textureIDs w ! nat k)"
    by blast
next
  assume a: "\<forall>i. 0 \<le> i \<and> i < m_loadedTextures w \<longrightarrow> TEXTURE_INFO.tag (m_textureIDs w ! nat i) \<noteq> t"
  from FindTexture_absent [OF a] show "FindTextureSlot t w = - 1" "FindTextureID t w = - 1"
    by simp_all
next
  assume a: "0 \<le> m_loadedTextures w \<and> m_loadedTextures w < MAX_TEXTURES \<and>
    MAX_TEXTURES = int (length (m_textureIDs w)) \<and>
    CreateGLTexture stbi_load MAX_TEXTURES name filename t w = (True, w')"
  then have cr: "CreateGLTexture stbi_load MAX_TEXTURES name filename t w = (True, w')"
    and n0: "0 \<le> m_loadedTextures w"
    and lt: "m_loadedTextures w < MAX_TEXTURES"
    and len: "MAX_TEXTURES = int (length (m_textureIDs w))"
    by blast+
  from n0 lt len have n1: "nat (m_loadedTextures w) < length (m_textureIDs w)" by linarith
  note n = n0 n1
  from CreateGLTexture_registry(2) [OF cr] lt
  have arr: "m_textureIDs w' = (m_textureIDs w)[nat (m_loadedTextures w) := \<lparr>ID = name, tag = t\<rparr>]"
    and cnt: "m_loadedTextures w' = m_loadedTextures w + 1"
    by simp_all
  note after = FindTexture_after_store [OF n arr cnt]
  show "m_loadedTextures w' = m_loadedTextures w + 1" by (rule cnt)
  show resolve: "if \<exists>i. 0 \<le> i \<and> i < m_loadedTextures w \<and> TEXTURE_INFO.tag (m_textureIDs w ! nat i) = t
       then FindTextureSlot t w' = FindTextureSlot t w \<and> FindTextureID t w' = FindTextureID t w
       else FindTextureSlot t w' = m_loadedTextures w \<and> FindTextureID t w' = sint name \<and>
            word_of_int (FindTextureID t w') = name"
  proof (cases "\<exists>i. 0 \<le> i \<and> i < m_loadedTextures w \<and> TEXTURE_INFO.tag (m_textureIDs w ! nat i) = t")
    case True
    show ?thesis by (subst if_P [OF True]) (rule after(1) [OF True])
  next
    case False
    then have "\<forall>i. 0 \<le> i \<and> i < m_loadedTextures w \<longrightarrow> TEXTURE_INFO.tag (m_textureIDs w ! nat i) \<noteq> t"
      by blast
    from after(2) [OF this]
    have r: "FindTextureSlot t w' = m_loadedTextures w \<and> FindTextureID t w' = sint name" .
    then have "word_of_int (FindTextureID t w') = name" by simp
    with r have "FindTextureSlot t w' = m_loadedTextures w \<and> FindTextureID t w' = sint name \<and>
            word_of_int (FindTextureID t w') = name"
      by blast
    then show ?thesis by (subst if_not_P [OF False])
  qed
  have range: "0 \<le> FindTextureSlot t w' \<and> FindTextureSlot t w' < m_loadedTextures w'"
  proof (cases "\<exists>i. 0 \<le> i \<and> i < m_loadedTextures w \<and> TEXTURE_INFO.tag (m_textureIDs w ! nat i) = t")
    case True
    then obtain i where "0 \<le> i" "i < m_loadedTextures w"
        "TEXTURE_INFO.tag (m_textureIDs w ! nat i) = t"
      by blast
    from FindTexture_registered [OF this]
    have "0 \<le> FindTextureSlot t w \<and> FindTextureSlot t w < m_loadedTextures w" by auto
    with after(1) [OF True] cnt show ?thesis by simp
  next
    case False
    then have "\<forall>i. 0 \<le> i \<and> i < m_loadedTextures w \<longrightarrow> TEXTURE_INFO.tag (m_textureIDs w ! nat i) \<noteq> t"
      by blast
    from after(2) [OF this] n cnt show ?thesis by simp
  qed
  from range show "0 \<le> FindTextureSlot t w'" "FindTextureSlot t w' < m_loadedTextures w'"
    by simp_all
qed


theorem FindTexture_lookup_witness:
  "(0::int) < m_loadedTextures scene2 \<and>
   TEXTURE_INFO.tag (m_textureIDs scene2 ! nat 0) = ''tent'' \<and>
   FindTextureSlot ''tent'' scene2 = 0 \<and> FindTextureID ''tent'' scene2 = 1 \<and>
   FindTextureSlot ''rock'' scene2 = - 1 \<and> FindTextureID ''rock'' scene2 = - 1 \<and>
   0 \<le> m_loadedTextures scene1 \<and> m_loadedTextures scene1 < 2 \<and>
   (2::int) = int (length (m_textureIDs scene1)) \<and>
   CreateGLTexture disk 2 2 ''textures/sky.png'' ''sky'' scene1 = (True, scene2) \<and>
   FindTextureSlot ''sky'' scene2 = 1 \<and> FindTextureID ''sky'' scene2 = 2"
proof -
  note thm1 = FindTexture_lookup [where w = scene2 and t = "''tent''", THEN conjunct1]
  note thm2 = FindTexture_lookup [where w = scene2 and t = "''rock''", THEN conjunct2, THEN conjunct1]
  note thm3 = FindTexture_lookup [where w = scene1 and t = "''sky''" and MAX_TEXTURES = 2
      and stbi_load = disk and name = 2 and filename = "''textures/sky.png''" and w' = scene2,
      THEN conjunct2, THEN conjunct2]
  have cell0: "TEXTURE_INFO.tag (m_textureIDs scene2 ! nat 0) = ''tent''"
    and id0: "ID (m_textureIDs scene2 ! nat 0) = 1"
    and count: "(0::int) < m_loadedTextures scene2"
    by (simp_all add: scene2_registry)
  from count cell0
  have "\<exists>i. 0 \<le> i \<and> i < m_loadedTextures scene2 \<and>
          TEXTURE_INFO.tag (m_textureIDs scene2 ! nat i) = ''tent''"
    by (intro exI [of _ 0]) simp
  with thm1 obtain k where k: "0 \<le> k"
      "\<forall>j. 0 \<le> j \<and> j < k \<longrightarrow> TEXTURE_INFO.tag (m_textureIDs scene2 ! nat j) \<noteq> ''tent''"
      "FindTextureSlot ''tent'' scene2 = k"
      "FindTextureID ''tent'' scene2 = sint (ID (m_textureIDs scene2 ! nat k))"
    by blast
  have "k = 0"
  proof (rule ccontr)
    assume "k \<noteq> 0"
    with k(1) have "0 \<le> (0::int) \<and> 0 < k" by simp
    with k(2) have "TEXTURE_INFO.tag (m_textureIDs scene2 ! nat 0) \<noteq> ''tent''" by blast
    with cell0 show False by simp
  qed
  with k(3,4) id0 have tent: "FindTextureSlot ''tent'' scene2 = 0 \<and> FindTextureID ''tent'' scene2 = 1"
    by simp
  have "\<forall>i. 0 \<le> i \<and> i < m_loadedTextures scene2 \<longrightarrow>
          TEXTURE_INFO.tag (m_textureIDs scene2 ! nat i) \<noteq> ''rock''"
  proof (intro allI impI)
    fix i :: int assume "0 \<le> i \<and> i < m_loadedTextures scene2"
    then have "i = 0 \<or> i = 1" by (simp add: scene2_registry) arith
    then show "TEXTURE_INFO.tag (m_textureIDs scene2 ! nat i) \<noteq> ''rock''"
      by (auto simp: scene2_registry)
  qed
  with thm2 have rock: "FindTextureSlot ''rock'' scene2 = - 1 \<and> FindTextureID ''rock'' scene2 = - 1"
    by blast
  have pre: "0 \<le> m_loadedTextures scene1 \<and> m_loadedTextures scene1 < 2 \<and>
      (2::int) = int (length (m_textureIDs scene1)) \<and>
      CreateGLTexture disk 2 2 ''textures/sky.png'' ''sky'' scene1 = (True, scene2)"
    by (simp add: scene1_registry scene2_Create)
  have fresh: "\<not> (\<exists>i. 0 \<le> i \<and> i < m_loadedTextures scene1 \<and>
          TEXTURE_INFO.tag (m_textureIDs scene1 ! nat i) = ''sky'')"
  proof
    assume "\<exists>i. 0 \<le> i \<and> i < m_loadedTextures scene1 \<and>
          TEXTURE_INFO.tag (m_textureIDs scene1 ! nat i) = ''sky''"
    then obtain i where i: "0 \<le> i" "i < m_loadedTextures scene1"
        "TEXTURE_INFO.tag (m_textureIDs scene1 ! nat i) = ''sky''"
      by blast
    from i(1,2) have "i = 0" by (simp add: scene1_registry)
    with i(3) show False by (simp add: scene1_registry)
  qed
  from thm3 pre have "if \<exists>i. 0 \<le> i \<and> i < m_loadedTextures scene1 \<and>
          TEXTURE_INFO.tag (m_textureIDs scene1 ! nat i) = ''sky''
       then FindTextureSlot ''sky'' scene2 = FindTextureSlot ''sky'' scene1 \<and>
            FindTextureID ''sky'' scene2 = FindTextureID ''sky'' scene1
       else FindTextureSlot ''sky'' scene2 = m_loadedTextures scene1 \<and>
            FindTextureID ''sky'' scene2 = sint (2::32 word) \<and>
            word_of_int (FindTextureID ''sky'' scene2) = (2::32 word)"
    by blast
  then have "FindTextureSlot ''sky'' scene2 = m_loadedTextures scene1 \<and>
            FindTextureID ''sky'' scene2 = sint (2::32 word)"
    by (subst (asm) if_not_P [OF fresh]) blast
  then have sky: "FindTextureSlot ''sky'' scene2 = 1 \<and> FindTextureID ''sky'' scene2 = 2"
    by (simp add: scene1_registry)
  from count cell0 tent rock pre sky show ?thesis by blast
qed

text \<open>
  C6. \<open>DestroyGLTextures\<close> on a registry with no entry changes nothing. On any registry
  it leaves the registered count at zero, after which both lookups return -1 for every
  tag, the previously registered ones included; and the texture object of every
  registered cell (the name 0 apart, which OpenGL ignores) is deleted.
\<close>

theorem DestroyGLTextures_resets:
  "(m_loadedTextures w = 0 \<longrightarrow> DestroyGLTextures w = w) \<and>
   m_loadedTextures (DestroyGLTextures w) = 0 \<and>
   FindTextureID t (DestroyGLTextures w) = - 1 \<and>
   FindTextureSlot t (DestroyGLTextures w) = - 1 \<and>
   (\<forall>i. 0 \<le> i \<and> i < m_loadedTextures w \<and> ID (m_textureIDs w ! nat i) \<noteq> 0 \<longrightarrow>
      gl_textures (DestroyGLTextures w) (ID (m_textureIDs w ! nat i)) = None)"
proof (intro conjI impI allI)
  assume "m_loadedTextures w = 0"
  then show "DestroyGLTextures w = w" by (rule DestroyGLTextures_empty)
next
  show zero: "m_loadedTextures (DestroyGLTextures w) = 0" by (rule DestroyGLTextures_registry)
  have none: "\<forall>j. 0 \<le> j \<and> j < m_loadedTextures (DestroyGLTextures w) \<longrightarrow>
      TEXTURE_INFO.tag (m_textureIDs (DestroyGLTextures w) ! nat j) \<noteq> t"
    unfolding zero by linarith
  from FindTexture_absent [OF none]
  show "FindTextureID t (DestroyGLTextures w) = - 1" "FindTextureSlot t (DestroyGLTextures w) = - 1"
    by simp_all
next
  fix i assume "0 \<le> i \<and> i < m_loadedTextures w \<and> ID (m_textureIDs w ! nat i) \<noteq> 0"
  then show "gl_textures (DestroyGLTextures w) (ID (m_textureIDs w ! nat i)) = None"
    by (subst DestroyGLTextures_textures) auto
qed

theorem DestroyGLTextures_resets_witness:
  "m_loadedTextures scene0 = 0 \<and> DestroyGLTextures scene0 = scene0 \<and>
   FindTextureID ''tent'' scene2 = 1 \<and> FindTextureSlot ''sky'' scene2 = 1 \<and>
   m_loadedTextures (DestroyGLTextures scene2) = 0 \<and>
   FindTextureID ''tent'' (DestroyGLTextures scene2) = - 1 \<and>
   FindTextureSlot ''sky'' (DestroyGLTextures scene2) = - 1 \<and>
   (0::int) < m_loadedTextures scene2 \<and> ID (m_textureIDs scene2 ! nat 0) = 1 \<and>
   gl_textures scene2 1 \<noteq> None \<and>
   gl_textures (DestroyGLTextures scene2) 1 = None"
proof -
  have empty: "m_loadedTextures scene0 = 0" by (rule scene0_registry)
  with DestroyGLTextures_resets [of scene0] have noop: "DestroyGLTextures scene0 = scene0"
    by blast
  from DestroyGLTextures_resets [of scene2 "''tent''"]
  have tent: "m_loadedTextures (DestroyGLTextures scene2) = 0 \<and>
      FindTextureID ''tent'' (DestroyGLTextures scene2) = - 1"
    by blast
  from DestroyGLTextures_resets [of scene2 "''sky''"]
  have sky: "FindTextureSlot ''sky'' (DestroyGLTextures scene2) = - 1"
    by blast
  have cell: "(0::int) < m_loadedTextures scene2 \<and> ID (m_textureIDs scene2 ! nat 0) = 1"
    by (simp add: scene2_registry)
  then have "0 \<le> (0::int) \<and> 0 < m_loadedTextures scene2 \<and> ID (m_textureIDs scene2 ! nat 0) \<noteq> 0"
    by simp
  with DestroyGLTextures_resets [of scene2]
  have "gl_textures (DestroyGLTextures scene2) (ID (m_textureIDs scene2 ! nat 0)) = None"
    by blast
  with cell have gone: "gl_textures (DestroyGLTextures scene2) 1 = None" by simp
  have "1 \<in> dom (gl_textures scene2)"
    using CreateGLTexture_dom [of disk 2 2 "''textures/sky.png''" "''sky''" scene1]
      CreateGLTexture_dom [of disk 2 1 "''textures/tent.jpg''" "''tent''" scene0]
    by (simp add: scene1_def [symmetric] scene2_def [symmetric] disk_def)
  then have live: "gl_textures scene2 1 \<noteq> None" by blast
  from empty noop scene2_lookup(2,3) tent sky cell live gone show ?thesis by blast
qed

text \<open>
  C9. The registered count stays between 0 and \<open>MAX_TEXTURES\<close>, and the array keeps
  its \<open>MAX_TEXTURES\<close> cells: this holds after the constructor, is preserved by every
  call, and so holds after any sequence of calls. \<open>CreateGLTexture\<close> leaves the count as
  it is or adds one; it writes a cell, at the index of the old count and inside the array,
  only when it succeeds with the count below \<open>MAX_TEXTURES\<close>, and otherwise leaves the
  array and the count alone. \<open>DestroyGLTextures\<close> sets the count to zero.
\<close>

theorem texture_count_invariant:
  "(0 \<le> MAX_TEXTURES \<longrightarrow>
      texture_invariant MAX_TEXTURES (SceneManager_ctor MAX_TEXTURES junk p env) \<and>
      0 \<le> m_loadedTextures (run stbi_load MAX_TEXTURES calls (SceneManager_ctor MAX_TEXTURES junk p env)) \<and>
      m_loadedTextures (run stbi_load MAX_TEXTURES calls (SceneManager_ctor MAX_TEXTURES junk p env))
        \<le> MAX_TEXTURES \<and>
      int (length (m_textureIDs (run stbi_load MAX_TEXTURES calls
        (SceneManager_ctor MAX_TEXTURES junk p env)))) = MAX_TEXTURES) \<and>
   (texture_invariant MAX_TEXTURES w \<longrightarrow>
      texture_invariant MAX_TEXTURES (call stbi_load MAX_TEXTURES c w) \<and>
      m_loadedTextures (DestroyGLTextures w) = 0 \<and>
      (CreateGLTexture stbi_load MAX_TEXTURES name filename t w = (r, w') \<longrightarrow>
         texture_invariant MAX_TEXTURES w' \<and>
         (m_loadedTextures w' = m_loadedTextures w \<or>
          m_loadedTextures w' = m_loadedTextures w + 1) \<and>
         (if r \<and> m_loadedTextures w < MAX_TEXTURES
          then nat (m_loadedTextures w) < length (m_textureIDs w) \<and>
               m_textureIDs w' =
                 (m_textureIDs w)[nat (m_loadedTextures w) := \<lparr>ID = name, tag = t\<rparr>] \<and>
               m_loadedTextures w' = m_loadedTextures w + 1
          else m_textureIDs w' = m_textureIDs w \<and>
               m_loadedTextures w' = m_loadedTextures w)))"
proof (intro conjI impI)
  assume max: "0 \<le> MAX_TEXTURES"
  then show ctor: "texture_invariant MAX_TEXTURES (SceneManager_ctor MAX_TEXTURES junk p env)"
    by (rule ctor_invariant)
  from run_invariant [OF ctor, of stbi_load calls]
  show "0 \<le> m_loadedTextures (run stbi_load MAX_TEXTURES calls (SceneManager_ctor MAX_TEXTURES junk p env))"
    "m_loadedTextures (run stbi_load MAX_TEXTURES calls (SceneManager_ctor MAX_TEXTURES junk p env))
        \<le> MAX_TEXTURES"
    "int (length (m_textureIDs (run stbi_load MAX_TEXTURES calls
        (SceneManager_ctor MAX_TEXTURES junk p env)))) = MAX_TEXTURES"
    by (simp_all add: texture_invariant_def)
next
  assume inv: "texture_invariant MAX_TEXTURES w"
  then show "texture_invariant MAX_TEXTURES (call stbi_load MAX_TEXTURES c w)"
    by (rule call_invariant)
  show "m_loadedTextures (DestroyGLTextures w) = 0" by (rule DestroyGLTextures_registry)
  assume cr: "CreateGLTexture stbi_load MAX_TEXTURES name filename t w = (r, w')"
  from CreateGLTexture_invariant [OF inv, of stbi_load name filename t]
  show "texture_invariant MAX_TEXTURES w'" by (simp add: cr)
  note reg = CreateGLTexture_registry(2,3) [OF cr]
  show "m_loadedTextures w' = m_loadedTextures w \<or> m_loadedTextures w' = m_loadedTextures w + 1"
    using reg by blast
  show "if r \<and> m_loadedTextures w < MAX_TEXTURES
          then nat (m_loadedTextures w) < length (m_textureIDs w) \<and>
               m_textureIDs w' =
                 (m_textureIDs w)[nat (m_loadedTextures w) := \<lparr>ID = name, tag = t\<rparr>] \<and>
               m_loadedTextures w' = m_loadedTextures w + 1
          else m_textureIDs w' = m_textureIDs w \<and>
               m_loadedTextures w' = m_loadedTextures w"
  proof (cases "r \<and> m_loadedTextures w < MAX_TEXTURES")
    case True
    with inv have "nat (m_loadedTextures w) < length (m_textureIDs w)"
      unfolding texture_invariant_def by linarith
    with reg(1) [OF True] show ?thesis by (subst if_P [OF True]) blast
  next
    case False
    from reg(2) [OF False] show ?thesis by (subst if_not_P [OF False])
  qed
qed

theorem texture_count_invariant_witness:
  "(0::int) \<le> 2 \<and> texture_invariant 2 scene0 \<and>
   m_loadedTextures (run disk 2
      [Call_CreateGLTexture ''textures/tent.jpg'' ''tent'' 1, Call_BindGLTextures,
       Call_CreateGLTexture ''textures/sky.png'' ''sky'' 2,
       Call_CreateGLTexture ''textures/tent.jpg'' ''third'' 3] scene0) \<le> 2 \<and>
   texture_invariant 2 scene2 \<and> m_loadedTextures scene2 = 2 \<and>
   texture_invariant 2 (call disk 2 (Call_SetShaderTexture ''sky'') scene2) \<and>
   m_loadedTextures (DestroyGLTextures scene2) = 0 \<and>
   CreateGLTexture disk 2 3 ''textures/tent.jpg'' ''third'' scene2 = (True, scene3) \<and>
   texture_invariant 2 scene3 \<and>
   m_textureIDs scene3 = m_textureIDs scene2 \<and> m_loadedTextures scene3 = 2"
proof -
  let ?calls = "[Call_CreateGLTexture ''textures/tent.jpg'' ''tent'' 1, Call_BindGLTextures,
       Call_CreateGLTexture ''textures/sky.png'' ''sky'' 2,
       Call_CreateGLTexture ''textures/tent.jpg'' ''third'' 3]"
  note inst = texture_count_invariant [where MAX_TEXTURES = 2 and junk = "\<lambda>i. 0" and p = "Some 0"
      and env = blank_world and stbi_load = disk and calls = ?calls and w = scene2
      and c = "Call_SetShaderTexture ''sky''" and name = 3
      and filename = "''textures/tent.jpg''" and t = "''third''" and r = True and w' = scene3,
      folded scene0_def]
  have max: "(0::int) \<le> 2" by simp
  with inst have ctor: "texture_invariant 2 scene0"
    and ran: "m_loadedTextures (run disk 2 ?calls scene0) \<le> 2"
    by blast+
  have inv2: "texture_invariant 2 scene2"
    by (simp add: texture_invariant_def scene2_registry)
  with inst have step: "texture_invariant 2 (call disk 2 (Call_SetShaderTexture ''sky'') scene2)"
    and destroy: "m_loadedTextures (DestroyGLTextures scene2) = 0"
    by blast+
  from inst inv2 scene3_Create
  have inv3: "texture_invariant 2 scene3"
    and full: "if True \<and> m_loadedTextures scene2 < 2
          then nat (m_loadedTextures scene2) < length (m_textureIDs scene2) \<and>
               m_textureIDs scene3 =
                 (m_textureIDs scene2)[nat (m_loadedTextures scene2) := \<lparr>ID = 3, tag = ''third''\<rparr>] \<and>
               m_loadedTextures scene3 = m_loadedTextures scene2 + 1
          else m_textureIDs scene3 = m_textureIDs scene2 \<and>
               m_loadedTextures scene3 = m_loadedTextures scene2"
    by blast+
  have "\<not> (True \<and> m_loadedTextures scene2 < 2)" by (simp add: scene2_registry)
  from full [unfolded if_not_P [OF this]]
  have same: "m_textureIDs scene3 = m_textureIDs scene2 \<and> m_loadedTextures scene3 = 2"
    by (simp add: scene2_registry)
  from max ctor ran inv2 scene2_registry(2) step destroy scene3_Create inv3 same
  show ?thesis by blast
qed

section \<open>Registration: properties\<close>

text \<open>
  C3. With the registered count at \<open>MAX_TEXTURES\<close>, registering an image that decodes
  with three or four channels returns success and creates the texture object, and the
  warning is printed; the count and the array are as before, so every lookup answers as
  before: each registered cell that is the first with its tag is found at its index with
  its ID, and a new tag that no registered cell carries gets -1 from both lookups.
\<close>

theorem CreateGLTexture_at_capacity:
  "m_loadedTextures w = MAX_TEXTURES \<and>
   stbi_load True filename = Some img \<and> (img_channels img = 3 \<or> img_channels img = 4) \<and>
   CreateGLTexture stbi_load MAX_TEXTURES name filename t w = (r, w') \<longrightarrow>
     r = True \<and> gl_textures w' name \<noteq> None \<and>
     cout w' = cout w @ [Successfully_loaded_image filename (img_width img) (img_height img)
                            (img_channels img), Exceeded_MAX_TEXTURES] \<and>
     m_loadedTextures w' = MAX_TEXTURES \<and> m_textureIDs w' = m_textureIDs w \<and>
     (\<forall>t'. FindTextureID t' w' = FindTextureID t' w \<and>
           FindTextureSlot t' w' = FindTextureSlot t' w) \<and>
     (\<forall>k. 0 \<le> k \<and> k < MAX_TEXTURES \<and>
          (\<forall>j. 0 \<le> j \<and> j < k \<longrightarrow>
             TEXTURE_INFO.tag (m_textureIDs w ! nat j) \<noteq> TEXTURE_INFO.tag (m_textureIDs w ! nat k)) \<longrightarrow>
          FindTextureSlot (TEXTURE_INFO.tag (m_textureIDs w ! nat k)) w' = k \<and>
          FindTextureID (TEXTURE_INFO.tag (m_textureIDs w ! nat k)) w'
            = sint (ID (m_textureIDs w ! nat k))) \<and>
     ((\<forall>i. 0 \<le> i \<and> i < MAX_TEXTURES \<longrightarrow> TEXTURE_INFO.tag (m_textureIDs w ! nat i) \<noteq> t) \<longrightarrow>
        FindTextureID t w' = - 1 \<and> FindTextureSlot t w' = - 1)"
proof (intro impI)
  assume a: "m_loadedTextures w = MAX_TEXTURES \<and>
   stbi_load True filename = Some img \<and> (img_channels img = 3 \<or> img_channels img = 4) \<and>
   CreateGLTexture stbi_load MAX_TEXTURES name filename t w = (r, w')"
  then have full: "m_loadedTextures w = MAX_TEXTURES"
    and img: "stbi_load True filename = Some img"
    and ch: "img_channels img = 3 \<or> img_channels img = 4"
    and cr: "CreateGLTexture stbi_load MAX_TEXTURES name filename t w = (r, w')"
    by blast+
  from CreateGLTexture_registry(1) [OF cr] img ch have r: "r = True"
    by (simp add: supported_def)
  from full have nlt: "\<not> (r \<and> m_loadedTextures w < MAX_TEXTURES)" by simp
  from CreateGLTexture_registry(3) [OF cr nlt]
  have arr: "m_textureIDs w' = m_textureIDs w" and cnt: "m_loadedTextures w' = m_loadedTextures w"
    by simp_all
  from CreateGLTexture_dom [of stbi_load MAX_TEXTURES name filename t w] img cr
  have "name \<in> dom (gl_textures w')" by simp
  then have obj: "gl_textures w' name \<noteq> None" by blast
  from CreateGLTexture_full_cout [where stbi_load = stbi_load and filename = filename
      and img = img and w = w and MAX_TEXTURES = MAX_TEXTURES and name = name and t = t]
    img ch full cr
  have out: "cout w' = cout w @ [Successfully_loaded_image filename (img_width img)
      (img_height img) (img_channels img), Exceeded_MAX_TEXTURES]"
    by simp
  note same = FindTexture_same_registry [OF arr cnt]
  have first: "\<forall>k. 0 \<le> k \<and> k < MAX_TEXTURES \<and>
          (\<forall>j. 0 \<le> j \<and> j < k \<longrightarrow>
             TEXTURE_INFO.tag (m_textureIDs w ! nat j) \<noteq> TEXTURE_INFO.tag (m_textureIDs w ! nat k)) \<longrightarrow>
          FindTextureSlot (TEXTURE_INFO.tag (m_textureIDs w ! nat k)) w' = k \<and>
          FindTextureID (TEXTURE_INFO.tag (m_textureIDs w ! nat k)) w'
            = sint (ID (m_textureIDs w ! nat k))"
  proof (intro allI impI)
    fix k
    assume k: "0 \<le> k \<and> k < MAX_TEXTURES \<and>
          (\<forall>j. 0 \<le> j \<and> j < k \<longrightarrow>
             TEXTURE_INFO.tag (m_textureIDs w ! nat j) \<noteq> TEXTURE_INFO.tag (m_textureIDs w ! nat k))"
    then have "0 \<le> k" "k < m_loadedTextures w"
        "TEXTURE_INFO.tag (m_textureIDs w ! nat k) = TEXTURE_INFO.tag (m_textureIDs w ! nat k)"
        "\<forall>j. 0 \<le> j \<and> j < k \<longrightarrow>
             TEXTURE_INFO.tag (m_textureIDs w ! nat j) \<noteq> TEXTURE_INFO.tag (m_textureIDs w ! nat k)"
      using full by simp_all
    from FindTexture_first [OF this] same
    show "FindTextureSlot (TEXTURE_INFO.tag (m_textureIDs w ! nat k)) w' = k \<and>
          FindTextureID (TEXTURE_INFO.tag (m_textureIDs w ! nat k)) w'
            = sint (ID (m_textureIDs w ! nat k))"
      by simp
  qed
  have absent: "(\<forall>i. 0 \<le> i \<and> i < MAX_TEXTURES \<longrightarrow> TEXTURE_INFO.tag (m_textureIDs w ! nat i) \<noteq> t) \<longrightarrow>
        FindTextureID t w' = - 1 \<and> FindTextureSlot t w' = - 1"
  proof
    assume "\<forall>i. 0 \<le> i \<and> i < MAX_TEXTURES \<longrightarrow> TEXTURE_INFO.tag (m_textureIDs w ! nat i) \<noteq> t"
    then have "\<forall>j. 0 \<le> j \<and> j < m_loadedTextures w \<longrightarrow> TEXTURE_INFO.tag (m_textureIDs w ! nat j) \<noteq> t"
      using full by simp
    from FindTexture_absent [OF this] same
    show "FindTextureID t w' = - 1 \<and> FindTextureSlot t w' = - 1" by simp
  qed
  from r obj out cnt full arr same first absent
  show "r = True \<and> gl_textures w' name \<noteq> None \<and>
     cout w' = cout w @ [Successfully_loaded_image filename (img_width img) (img_height img)
                            (img_channels img), Exceeded_MAX_TEXTURES] \<and>
     m_loadedTextures w' = MAX_TEXTURES \<and> m_textureIDs w' = m_textureIDs w \<and>
     (\<forall>t'. FindTextureID t' w' = FindTextureID t' w \<and>
           FindTextureSlot t' w' = FindTextureSlot t' w) \<and>
     (\<forall>k. 0 \<le> k \<and> k < MAX_TEXTURES \<and>
          (\<forall>j. 0 \<le> j \<and> j < k \<longrightarrow>
             TEXTURE_INFO.tag (m_textureIDs w ! nat j) \<noteq> TEXTURE_INFO.tag (m_textureIDs w ! nat k)) \<longrightarrow>
          FindTextureSlot (TEXTURE_INFO.tag (m_textureIDs w ! nat k)) w' = k \<and>
          FindTextureID (TEXTURE_INFO.tag (m_textureIDs w ! nat k)) w'
            = sint (ID (m_textureIDs w ! nat k))) \<and>
     ((\<forall>i. 0 \<le> i \<and> i < MAX_TEXTURES \<longrightarrow> TEXTURE_INFO.tag (m_textureIDs w ! nat i) \<noteq> t) \<longrightarrow>
        FindTextureID t w' = - 1 \<and> FindTextureSlot t w' = - 1)"
    by (intro conjI) simp_all
qed


theorem CreateGLTexture_at_capacity_witness:
  "m_loadedTextures scene2 = 2 \<and>
   disk True ''textures/tent.jpg'' =
     Some \<lparr>img_width = 1, img_height = 1, img_channels = 3, img_data = [200, 100, 50]\<rparr> \<and>
   CreateGLTexture disk 2 3 ''textures/tent.jpg'' ''third'' scene2 = (True, scene3) \<and>
   gl_textures scene3 3 \<noteq> None \<and>
   cout scene3 = cout scene2 @ [Successfully_loaded_image ''textures/tent.jpg'' 1 1 3,
                                Exceeded_MAX_TEXTURES] \<and>
   m_loadedTextures scene3 = 2 \<and>
   FindTextureID ''tent'' scene3 = 1 \<and> FindTextureSlot ''tent'' scene3 = 0 \<and>
   FindTextureID ''sky'' scene3 = 2 \<and> FindTextureSlot ''sky'' scene3 = 1 \<and>
   FindTextureID ''third'' scene3 = - 1 \<and> FindTextureSlot ''third'' scene3 = - 1"
proof -
  let ?img = "\<lparr>img_width = 1, img_height = 1, img_channels = 3, img_data = [200, 100, 50]\<rparr>"
  have full: "m_loadedTextures scene2 = 2" by (rule scene2_registry)
  have img: "disk True ''textures/tent.jpg'' = Some ?img" by (simp add: disk_def)
  have ch: "img_channels ?img = 3 \<or> img_channels ?img = 4" by simp
  from CreateGLTexture_at_capacity [where w = scene2 and MAX_TEXTURES = 2 and stbi_load = disk
      and filename = "''textures/tent.jpg''" and img = ?img and name = 3 and t = "''third''"
      and r = True and w' = scene3] full img ch scene3_Create
  have obj: "gl_textures scene3 3 \<noteq> None"
    and out: "cout scene3 = cout scene2 @ [Successfully_loaded_image ''textures/tent.jpg''
        (img_width ?img) (img_height ?img) (img_channels ?img), Exceeded_MAX_TEXTURES]"
    and cnt: "m_loadedTextures scene3 = 2"
    and same: "\<forall>t'. FindTextureID t' scene3 = FindTextureID t' scene2 \<and>
           FindTextureSlot t' scene3 = FindTextureSlot t' scene2"
    and absent: "(\<forall>i. 0 \<le> i \<and> i < 2 \<longrightarrow>
            TEXTURE_INFO.tag (m_textureIDs scene2 ! nat i) \<noteq> ''third'') \<longrightarrow>
        FindTextureID ''third'' scene3 = - 1 \<and> FindTextureSlot ''third'' scene3 = - 1"
    by blast+
  from out have out': "cout scene3 = cout scene2 @
      [Successfully_loaded_image ''textures/tent.jpg'' 1 1 3, Exceeded_MAX_TEXTURES]"
    by simp
  from same scene2_lookup
  have old: "FindTextureID ''tent'' scene3 = 1 \<and> FindTextureSlot ''tent'' scene3 = 0 \<and>
      FindTextureID ''sky'' scene3 = 2 \<and> FindTextureSlot ''sky'' scene3 = 1"
    by simp
  have "\<forall>i. 0 \<le> i \<and> i < 2 \<longrightarrow> TEXTURE_INFO.tag (m_textureIDs scene2 ! nat i) \<noteq> ''third''"
  proof (intro allI impI)
    fix i :: int assume "0 \<le> i \<and> i < 2"
    then have "i = 0 \<or> i = 1" by arith
    then show "TEXTURE_INFO.tag (m_textureIDs scene2 ! nat i) \<noteq> ''third''"
      by (auto simp: scene2_registry)
  qed
  with absent have new: "FindTextureID ''third'' scene3 = - 1 \<and> FindTextureSlot ''third'' scene3 = - 1"
    by blast
  from full img scene3_Create obj out' cnt old new show ?thesis by blast
qed

text \<open>
  C2, on the two-channel image of the disk. The texture name 3 is free before the call.
  The call returns failure and leaves the registry as it was, but the texture object 3
  that it generated exists after the return, and since no cell of the registry holds its
  name, it still exists after \<open>DestroyGLTextures\<close>.
\<close>

theorem CreateGLTexture_unsupported_keeps_texture:
  "disk True ''textures/grey.png'' =
     Some \<lparr>img_width = 1, img_height = 1, img_channels = 2, img_data = [128, 255]\<rparr> \<and>
   gl_textures scene1 3 = None \<and>
   CreateGLTexture disk 2 3 ''textures/grey.png'' ''grey'' scene1 = (False, scene_grey) \<and>
   m_loadedTextures scene_grey = m_loadedTextures scene1 \<and>
   m_textureIDs scene_grey = m_textureIDs scene1 \<and>
   gl_textures scene_grey 3 \<noteq> None \<and>
   gl_textures (DestroyGLTextures scene_grey) 3 \<noteq> None"
proof -
  have img: "disk True ''textures/grey.png'' =
     Some \<lparr>img_width = 1, img_height = 1, img_channels = 2, img_data = [128, 255]\<rparr>"
    by (simp add: disk_def)
  have "(3::GLuint) \<notin> dom (gl_textures scene1)" by (simp add: scene1_textures)
  then have free: "gl_textures scene1 3 = None" by blast
  from CreateGLTexture_unsupported(2) [where stbi_load = disk and filename = "''textures/grey.png''"
      and MAX_TEXTURES = 2 and name = 3 and t = "''grey''" and w = scene1, OF img]
  have "3 \<in> dom (gl_textures scene_grey)" by (simp add: scene_grey_def)
  then have kept: "gl_textures scene_grey 3 \<noteq> None" by blast
  have "\<not> (\<exists>i. 0 \<le> i \<and> i < m_loadedTextures scene_grey \<and>
            ID (m_textureIDs scene_grey ! nat i) = 3)"
  proof
    assume "\<exists>i. 0 \<le> i \<and> i < m_loadedTextures scene_grey \<and>
            ID (m_textureIDs scene_grey ! nat i) = 3"
    then obtain i where i: "0 \<le> i" "i < m_loadedTextures scene_grey"
        "ID (m_textureIDs scene_grey ! nat i) = 3"
      by blast
    from i(1,2) have "i = 0" by (simp add: scene_grey_registry scene1_registry)
    with i(3) show False by (simp add: scene_grey_registry scene1_registry)
  qed
  then have "gl_textures (DestroyGLTextures scene_grey) 3 = gl_textures scene_grey 3"
    by (subst DestroyGLTextures_textures) (simp only: simp_thms if_False)
  with kept have leaked: "gl_textures (DestroyGLTextures scene_grey) 3 \<noteq> None" by simp
  from img free scene_grey_Create scene_grey_registry kept leaked show ?thesis by blast
qed

section \<open>Shader binding: properties\<close>

text \<open>
  C7. With a shader manager present, \<open>SetShaderTexture\<close> writes 1 to the use-texture
  uniform whatever the tag. When the tag resolves to a slot, it then writes that slot to
  the sampler uniform, and these are its only writes. When the tag does not resolve, the
  write of 1 is its only write, so texturing stays enabled and the sampler uniform keeps
  the value it had, and one error line naming the tag is printed.
\<close>

theorem SetShaderTexture_writes:
  "m_pShaderManager w = Some a \<longrightarrow>
     uniform_value (shaders (SetShaderTexture t w) a) g_UseTextureName = Some (IntValue 1) \<and>
     (0 \<le> FindTextureSlot t w \<longrightarrow>
        shaders (SetShaderTexture t w) =
          (shaders w)(a := shaders w a @
             [(g_UseTextureName, IntValue 1),
              (g_TextureValueName, Sampler2DValue (FindTextureSlot t w))]) \<and>
        cerr (SetShaderTexture t w) = cerr w) \<and>
     (FindTextureSlot t w < 0 \<longrightarrow>
        shaders (SetShaderTexture t w) =
          (shaders w)(a := shaders w a @ [(g_UseTextureName, IntValue 1)]) \<and>
        cerr (SetShaderTexture t w) = cerr w @ [Texture_tag_not_found t] \<and>
        uniform_value (shaders (SetShaderTexture t w) a) g_TextureValueName =
          uniform_value (shaders w a) g_TextureValueName)"
proof (intro impI)
  assume p: "m_pShaderManager w = Some a"
  have hit: "shaders (SetShaderTexture t w) =
          (shaders w)(a := shaders w a @
             [(g_UseTextureName, IntValue 1),
              (g_TextureValueName, Sampler2DValue (FindTextureSlot t w))]) \<and>
        cerr (SetShaderTexture t w) = cerr w"
    if "0 \<le> FindTextureSlot t w"
    using p that by (simp add: SetShaderTexture_def Let_def) (simp add: setUniform_def)
  have miss: "shaders (SetShaderTexture t w) =
          (shaders w)(a := shaders w a @ [(g_UseTextureName, IntValue 1)]) \<and>
        cerr (SetShaderTexture t w) = cerr w @ [Texture_tag_not_found t]"
    if "FindTextureSlot t w < 0"
    using p that by (simp add: SetShaderTexture_def Let_def) (simp add: setUniform_def print_cerr_def)
  have keep: "uniform_value (shaders (SetShaderTexture t w) a) g_TextureValueName =
          uniform_value (shaders w a) g_TextureValueName"
    if "FindTextureSlot t w < 0"
    using miss [OF that] by (simp add: uniform_value_append uniform_names_distinct)
  have on: "uniform_value (shaders (SetShaderTexture t w) a) g_UseTextureName = Some (IntValue 1)"
  proof (cases "0 \<le> FindTextureSlot t w")
    case True
    from hit [OF True] show ?thesis
      using uniform_value_append [of "shaders w a @ [(g_UseTextureName, IntValue 1)]"
          g_TextureValueName "Sampler2DValue (FindTextureSlot t w)" g_UseTextureName]
      by (simp add: uniform_value_append uniform_names_distinct [symmetric])
  next
    case False
    then have "FindTextureSlot t w < 0" by simp
    from miss [OF this] show ?thesis by (simp add: uniform_value_append)
  qed
  from on hit miss keep
  show "uniform_value (shaders (SetShaderTexture t w) a) g_UseTextureName = Some (IntValue 1) \<and>
     (0 \<le> FindTextureSlot t w \<longrightarrow>
        shaders (SetShaderTexture t w) =
          (shaders w)(a := shaders w a @
             [(g_UseTextureName, IntValue 1),
              (g_TextureValueName, Sampler2DValue (FindTextureSlot t w))]) \<and>
        cerr (SetShaderTexture t w) = cerr w) \<and>
     (FindTextureSlot t w < 0 \<longrightarrow>
        shaders (SetShaderTexture t w) =
          (shaders w)(a := shaders w a @ [(g_UseTextureName, IntValue 1)]) \<and>
        cerr (SetShaderTexture t w) = cerr w @ [Texture_tag_not_found t] \<and>
        uniform_value (shaders (SetShaderTexture t w) a) g_TextureValueName =
          uniform_value (shaders w a) g_TextureValueName)"
    by blast
qed

theorem SetShaderTexture_writes_witness:
  "m_pShaderManager scene2 = Some 0 \<and> FindTextureSlot ''sky'' scene2 = 1 \<and>
   shaders scene2_sky 0 = [(''bUseTexture'', IntValue 1), (''objectTexture'', Sampler2DValue 1)] \<and>
   cerr scene2_sky = [] \<and>
   m_pShaderManager scene2_sky = Some 0 \<and> FindTextureSlot ''rock'' scene2_sky = - 1 \<and>
   shaders (SetShaderTexture ''rock'' scene2_sky) 0 =
     [(''bUseTexture'', IntValue 1), (''objectTexture'', Sampler2DValue 1),
      (''bUseTexture'', IntValue 1)] \<and>
   cerr (SetShaderTexture ''rock'' scene2_sky) = [Texture_tag_not_found ''rock''] \<and>
   uniform_value (shaders (SetShaderTexture ''rock'' scene2_sky) 0) ''objectTexture''
     = Some (Sampler2DValue 1) \<and>
   uniform_value (shaders (SetShaderTexture ''rock'' scene2_sky) 0) ''bUseTexture''
     = Some (IntValue 1)"
proof -
  note hit = SetShaderTexture_writes [of scene2 0 "''sky''", folded scene2_sky_def]
  note miss = SetShaderTexture_writes [of scene2_sky 0 "''rock''"]
  have p: "m_pShaderManager scene2 = Some 0" by (rule scene2_registry)
  have slot: "FindTextureSlot ''sky'' scene2 = 1" by (rule scene2_lookup)
  then have "0 \<le> FindTextureSlot ''sky'' scene2" by simp
  with hit p have "shaders scene2_sky =
          (shaders scene2)(0 := shaders scene2 0 @
             [(g_UseTextureName, IntValue 1),
              (g_TextureValueName, Sampler2DValue (FindTextureSlot ''sky'' scene2))]) \<and>
        cerr scene2_sky = cerr scene2"
    by blast
  then have sky: "shaders scene2_sky 0 =
      [(''bUseTexture'', IntValue 1), (''objectTexture'', Sampler2DValue 1)] \<and>
      cerr scene2_sky = []"
    by (simp add: slot scene2_shaders g_UseTextureName_def g_TextureValueName_def)
  have p': "m_pShaderManager scene2_sky = Some 0" by (rule scene2_sky_registry)
  have slot': "FindTextureSlot ''rock'' scene2_sky = - 1" by (rule scene2_sky_rock)
  then have "FindTextureSlot ''rock'' scene2_sky < 0" by simp
  with miss p' have m: "shaders (SetShaderTexture ''rock'' scene2_sky) =
          (shaders scene2_sky)(0 := shaders scene2_sky 0 @ [(g_UseTextureName, IntValue 1)])"
      "cerr (SetShaderTexture ''rock'' scene2_sky) = cerr scene2_sky @ [Texture_tag_not_found ''rock'']"
      "uniform_value (shaders (SetShaderTexture ''rock'' scene2_sky) 0) g_TextureValueName =
          uniform_value (shaders scene2_sky 0) g_TextureValueName"
      "uniform_value (shaders (SetShaderTexture ''rock'' scene2_sky) 0) g_UseTextureName
          = Some (IntValue 1)"
    by blast+
  from m(1,2) sky have rock: "shaders (SetShaderTexture ''rock'' scene2_sky) 0 =
     [(''bUseTexture'', IntValue 1), (''objectTexture'', Sampler2DValue 1),
      (''bUseTexture'', IntValue 1)] \<and>
     cerr (SetShaderTexture ''rock'' scene2_sky) = [Texture_tag_not_found ''rock'']"
    by (simp add: g_UseTextureName_def)
  from m(3) sky have sampler:
    "uniform_value (shaders (SetShaderTexture ''rock'' scene2_sky) 0) ''objectTexture''
       = Some (Sampler2DValue 1)"
    by (simp add: g_TextureValueName_def)
  from m(4) have enabled:
    "uniform_value (shaders (SetShaderTexture ''rock'' scene2_sky) 0) ''bUseTexture''
       = Some (IntValue 1)"
    by (simp add: g_UseTextureName_def)
  from p slot sky p' slot' rock sampler enabled show ?thesis by blast
qed

text \<open>
  C10. With a null shader manager, each of the four setters returns the state it was given:
  no uniform of any shader manager is written and nothing is printed.
\<close>

theorem null_shader_manager_noop:
  "m_pShaderManager w = None \<longrightarrow>
     SetTransformations scaleXYZ rx ry rz positionXYZ w = w \<and>
     SetShaderColor r g b al w = w \<and>
     SetShaderTexture t w = w \<and>
     SetTextureUVScale u v w = w"
  by (simp add: SetTransformations_def SetShaderColor_def SetShaderTexture_def
        SetTextureUVScale_def Let_def)

theorem null_shader_manager_noop_witness:
  "m_pShaderManager scene_null = None \<and>
   SetTransformations (Vec3 2 2 2) 90 0 45 (Vec3 1 0 (- 3)) scene_null = scene_null \<and>
   SetShaderColor 1 0.5 0 1 scene_null = scene_null \<and>
   SetShaderTexture ''tent'' scene_null = scene_null \<and>
   SetTextureUVScale 4 4 scene_null = scene_null"
proof -
  have null: "m_pShaderManager scene_null = None"
    by (simp add: scene_null_def SceneManager_ctor_def)
  with null_shader_manager_noop [of scene_null "Vec3 2 2 2" 90 0 45 "Vec3 1 0 (- 3)"
      1 "0.5" 0 1 "''tent''" 4 4]
  show ?thesis by blast
qed

section \<open>Transform builder: properties\<close>

text \<open>
  C4. With a shader manager present, \<open>SetTransformations\<close> writes to the model uniform
  the product translation * rotationZ * rotationY * rotationX * scale, for all arguments.
  Applied to a point, the product scales first, then rotates about X, then about Y, then
  about Z, then translates; the five factors act on a point as the scaling, the three
  axis rotations and the translation do. With scale (1,1,1), angles 0 and translation
  (0,0,0) the matrix written is the identity. (Arithmetic on real numbers.)
\<close>

theorem SetTransformations_composition:
  "(m_pShaderManager w = Some a \<longrightarrow>
      SetTransformations scaleXYZ rx ry rz positionXYZ w =
        setUniform a g_ModelName
          (Mat4Value (glm_translate positionXYZ * glm_rotate (glm_radians rz) (Vec3 0 0 1) *
                      glm_rotate (glm_radians ry) (Vec3 0 1 0) *
                      glm_rotate (glm_radians rx) (Vec3 1 0 0) * glm_scale scaleXYZ)) w \<and>
      uniform_value (shaders (SetTransformations scaleXYZ rx ry rz positionXYZ w) a) g_ModelName =
        Some (Mat4Value (glm_translate positionXYZ * glm_rotate (glm_radians rz) (Vec3 0 0 1) *
                      glm_rotate (glm_radians ry) (Vec3 0 1 0) *
                      glm_rotate (glm_radians rx) (Vec3 1 0 0) * glm_scale scaleXYZ)) \<and>
      SetTransformations (Vec3 1 1 1) 0 0 0 (Vec3 0 0 0) w =
        setUniform a g_ModelName (Mat4Value mat4_identity) w) \<and>
   mat4_times_vec4
     (glm_translate positionXYZ * glm_rotate (glm_radians rz) (Vec3 0 0 1) *
      glm_rotate (glm_radians ry) (Vec3 0 1 0) *
      glm_rotate (glm_radians rx) (Vec3 1 0 0) * glm_scale scaleXYZ) v =
   mat4_times_vec4 (glm_translate positionXYZ)
     (mat4_times_vec4 (glm_rotate (glm_radians rz) (Vec3 0 0 1))
        (mat4_times_vec4 (glm_rotate (glm_radians ry) (Vec3 0 1 0))
           (mat4_times_vec4 (glm_rotate (glm_radians rx) (Vec3 1 0 0))
              (mat4_times_vec4 (glm_scale scaleXYZ) v)))) \<and>
   mat4_times_vec4 (glm_scale (Vec3 sx sy sz)) (Vec4 x y z u) =
     Vec4 (sx * x) (sy * y) (sz * z) u \<and>
   mat4_times_vec4 (glm_rotate \<theta> (Vec3 1 0 0)) (Vec4 x y z u) =
     Vec4 x (cos \<theta> * y - sin \<theta> * z) (sin \<theta> * y + cos \<theta> * z) u \<and>
   mat4_times_vec4 (glm_rotate \<theta> (Vec3 0 1 0)) (Vec4 x y z u) =
     Vec4 (cos \<theta> * x + sin \<theta> * z) y (cos \<theta> * z - sin \<theta> * x) u \<and>
   mat4_times_vec4 (glm_rotate \<theta> (Vec3 0 0 1)) (Vec4 x y z u) =
     Vec4 (cos \<theta> * x - sin \<theta> * y) (sin \<theta> * x + cos \<theta> * y) z u \<and>
   mat4_times_vec4 (glm_translate (Vec3 tx ty tz)) (Vec4 x y z u) =
     Vec4 (x + tx * u) (y + ty * u) (z + tz * u) u"
proof (intro conjI impI)
  assume p: "m_pShaderManager w = Some a"
  then show push: "SetTransformations scaleXYZ rx ry rz positionXYZ w =
        setUniform a g_ModelName
          (Mat4Value (glm_translate positionXYZ * glm_rotate (glm_radians rz) (Vec3 0 0 1) *
                      glm_rotate (glm_radians ry) (Vec3 0 1 0) *
                      glm_rotate (glm_radians rx) (Vec3 1 0 0) * glm_scale scaleXYZ)) w"
    by (simp add: SetTransformations_def Let_def)
  show "uniform_value (shaders (SetTransformations scaleXYZ rx ry rz positionXYZ w) a) g_ModelName =
        Some (Mat4Value (glm_translate positionXYZ * glm_rotate (glm_radians rz) (Vec3 0 0 1) *
                      glm_rotate (glm_radians ry) (Vec3 0 1 0) *
                      glm_rotate (glm_radians rx) (Vec3 1 0 0) * glm_scale scaleXYZ))"
    unfolding push by (simp add: setUniform_def uniform_value_append)
  from p show "SetTransformations (Vec3 1 1 1) 0 0 0 (Vec3 0 0 0) w =
        setUniform a g_ModelName (Mat4Value mat4_identity) w"
    by (simp add: SetTransformations_def Let_def glm_identity mat4_identity_times
          del: glm_scale.simps glm_translate.simps)
next
  show "mat4_times_vec4
     (glm_translate positionXYZ * glm_rotate (glm_radians rz) (Vec3 0 0 1) *
      glm_rotate (glm_radians ry) (Vec3 0 1 0) *
      glm_rotate (glm_radians rx) (Vec3 1 0 0) * glm_scale scaleXYZ) v =
   mat4_times_vec4 (glm_translate positionXYZ)
     (mat4_times_vec4 (glm_rotate (glm_radians rz) (Vec3 0 0 1))
        (mat4_times_vec4 (glm_rotate (glm_radians ry) (Vec3 0 1 0))
           (mat4_times_vec4 (glm_rotate (glm_radians rx) (Vec3 1 0 0))
              (mat4_times_vec4 (glm_scale scaleXYZ) v))))"
    by (simp only: mat4_times_assoc)
qed (rule glm_scale_point glm_rotate_X_point glm_rotate_Y_point glm_rotate_Z_point
       glm_translate_point)+

theorem SetTransformations_composition_witness:
  "m_pShaderManager scene0 = Some 0 \<and>
   SetTransformations (Vec3 1 1 1) 0 0 0 (Vec3 0 0 0) scene0 =
     setUniform 0 ''model'' (Mat4Value mat4_identity) scene0 \<and>
   uniform_value (shaders (SetTransformations (Vec3 2 2 2) 0 90 0 (Vec3 0 0 5) scene0) 0) ''model'' =
     Some (Mat4Value (glm_translate (Vec3 0 0 5) * glm_rotate (glm_radians 0) (Vec3 0 0 1) *
                      glm_rotate (glm_radians 90) (Vec3 0 1 0) *
                      glm_rotate (glm_radians 0) (Vec3 1 0 0) * glm_scale (Vec3 2 2 2))) \<and>
   mat4_times_vec4 (glm_translate (Vec3 0 0 5) * glm_rotate (glm_radians 0) (Vec3 0 0 1) *
                    glm_rotate (glm_radians 90) (Vec3 0 1 0) *
                    glm_rotate (glm_radians 0) (Vec3 1 0 0) * glm_scale (Vec3 2 2 2))
     (Vec4 1 0 0 1) = Vec4 0 0 3 1"
proof -
  note inst = SetTransformations_composition [where w = scene0 and a = 0
      and scaleXYZ = "Vec3 2 2 2" and rx = 0 and ry = 90 and rz = 0
      and positionXYZ = "Vec3 0 0 5" and v = "Vec4 1 0 0 1"]
  have p: "m_pShaderManager scene0 = Some 0" by (rule scene0_registry)
  with inst have ident: "SetTransformations (Vec3 1 1 1) 0 0 0 (Vec3 0 0 0) scene0 =
        setUniform 0 g_ModelName (Mat4Value mat4_identity) scene0"
    and pushed: "uniform_value
        (shaders (SetTransformations (Vec3 2 2 2) 0 90 0 (Vec3 0 0 5) scene0) 0) g_ModelName =
      Some (Mat4Value (glm_translate (Vec3 0 0 5) * glm_rotate (glm_radians 0) (Vec3 0 0 1) *
                      glm_rotate (glm_radians 90) (Vec3 0 1 0) *
                      glm_rotate (glm_radians 0) (Vec3 1 0 0) * glm_scale (Vec3 2 2 2)))"
    by blast+
  from inst have "mat4_times_vec4
       (glm_translate (Vec3 0 0 5) * glm_rotate (glm_radians 0) (Vec3 0 0 1) *
        glm_rotate (glm_radians 90) (Vec3 0 1 0) *
        glm_rotate (glm_radians 0) (Vec3 1 0 0) * glm_scale (Vec3 2 2 2)) (Vec4 1 0 0 1) =
     mat4_times_vec4 (glm_translate (Vec3 0 0 5))
       (mat4_times_vec4 (glm_rotate (glm_radians 0) (Vec3 0 0 1))
          (mat4_times_vec4 (glm_rotate (glm_radians 90) (Vec3 0 1 0))
             (mat4_times_vec4 (glm_rotate (glm_radians 0) (Vec3 1 0 0))
                (mat4_times_vec4 (glm_scale (Vec3 2 2 2)) (Vec4 1 0 0 1)))))"
    by blast
  also have "\<dots> = Vec4 0 0 3 1"
    by (simp add: glm_scale_point glm_rotate_X_point glm_rotate_Y_point glm_rotate_Z_point
          glm_translate_point glm_radians_def del: glm_scale.simps glm_translate.simps)
  finally have point: "mat4_times_vec4
       (glm_translate (Vec3 0 0 5) * glm_rotate (glm_radians 0) (Vec3 0 0 1) *
        glm_rotate (glm_radians 90) (Vec3 0 1 0) *
        glm_rotate (glm_radians 0) (Vec3 1 0 0) * glm_scale (Vec3 2 2 2)) (Vec4 1 0 0 1) =
     Vec4 0 0 3 1" .
  from p ident pushed point show ?thesis by (simp add: g_ModelName_def)
qed

end
